theory Spec2Isabelle
  imports
    Main
    "HOL-Library.Sublist"
    "HOL-Library.List_Lexorder"
    "HOL-Library.Char_ord"
    "HOL-Library.AList"
begin

section \<open>Strings\<close>

text \<open>
  JavaScript strings are modelled as \<^typ>\<open>string\<close>: the characters are bytes, a text outside
  ASCII is its UTF-8 encoding. Every pattern and every literal of
  \<^verbatim>\<open>proxy-handler.ts\<close> that takes part in a comparison is ASCII.
\<close>

abbreviation dq :: char where "dq \<equiv> CHR 0x22"
abbreviation sq :: char where "sq \<equiv> CHR 0x27"
abbreviation bsl :: char where "bsl \<equiv> CHR 0x5C"

definition startsWith :: "string \<Rightarrow> string \<Rightarrow> bool" where
  "startsWith s p = prefix p s"

definition str_includes :: "string \<Rightarrow> string \<Rightarrow> bool" where
  "str_includes s p = sublist p s"

definition to_lower :: "char \<Rightarrow> char" where
  "to_lower c =
     (if CHR ''A'' \<le> c \<and> c \<le> CHR ''Z'' then char_of (of_char c + (32::nat)) else c)"

definition lower :: "string \<Rightarrow> string" where
  "lower s = map to_lower s"

fun elem :: "char \<Rightarrow> string \<Rightarrow> bool" where
  "elem x [] = False"
| "elem x (c # cs) = (x = c \<or> elem x cs)"

text \<open>\<^verbatim>\<open>s.replace(':', '')\<close>: a string pattern replaces its first occurrence only.\<close>

fun remove_first :: "char \<Rightarrow> string \<Rightarrow> string" where
  "remove_first x [] = []"
| "remove_first x (c # cs) = (if c = x then cs else c # remove_first x cs)"

text \<open>\<^verbatim>\<open>s.replace(/\/$/, '')\<close>: one trailing slash is removed.\<close>

definition strip_trailing_slash :: "string \<Rightarrow> string" where
  "strip_trailing_slash s = (if s \<noteq> [] \<and> last s = CHR ''/'' then butlast s else s)"

text \<open>
  \<^verbatim>\<open>s.lastIndexOf(pat)\<close>: the greatest index at which \<open>pat\<close> starts in \<open>s\<close>;
  \<open>None\<close> stands for \<open>-1\<close>. The scan keeps the index \<open>i\<close> of the suffix it looks at.
\<close>

fun lastIndexOf_from :: "string \<Rightarrow> nat \<Rightarrow> nat option \<Rightarrow> string \<Rightarrow> nat option" where
  "lastIndexOf_from pat i best [] = (if pat = [] then Some i else best)"
| "lastIndexOf_from pat i best (c # cs) =
     lastIndexOf_from pat (Suc i) (if prefix pat (c # cs) then Some i else best) cs"

definition lastIndexOf :: "string \<Rightarrow> string \<Rightarrow> nat option" where
  "lastIndexOf s pat = lastIndexOf_from pat 0 None s"

section \<open>Regular expressions\<close>

text \<open>
  The patterns of the rewrite passes use literals, character classes, \<open>.\<close>, alternation,
  \<open>?\<close>, greedy \<open>*\<close> and \<open>+\<close>, lazy \<open>*?\<close>, capturing groups and negative lookahead, all
  with the flags \<open>g\<close> and \<open>i\<close>. \<open>Chr c\<close> is a literal compared without regard to case
  (flag \<open>i\<close>); \<open>Grp n r\<close> is the \<open>n\<close>-th capturing group.
\<close>

datatype rx =
    Chr char
  | OneOf string
  | NoneOf string
  | Eps
  | Cat rx rx
  | Alt rx rx
  | Opt rx
  | Star rx
  | StarLazy rx
  | Grp nat rx
  | NotAhead rx

type_synonym caps = "(nat \<times> string) list"

text \<open>
  \<open>rx_match r acc s k\<close> lists, in the order in which a backtracking matcher tries them,
  the ways \<open>r\<close> matches at the start of \<open>s\<close>: the text consumed so far (latest character
  first, \<open>acc\<close> on entry), the rest of the input and the captures. An iteration of a star
  that consumes nothing is rejected, as in ECMAScript.
\<close>

function rx_match :: "rx \<Rightarrow> string \<Rightarrow> string \<Rightarrow> caps \<Rightarrow> (string \<times> string \<times> caps) list" where
  "rx_match (Chr c) acc [] k = []"
| "rx_match (Chr c) acc (x # xs) k =
     (if to_lower x = to_lower c then [(x # acc, xs, k)] else [])"
| "rx_match (OneOf cs) acc [] k = []"
| "rx_match (OneOf cs) acc (x # xs) k = (if elem x cs then [(x # acc, xs, k)] else [])"
| "rx_match (NoneOf cs) acc [] k = []"
| "rx_match (NoneOf cs) acc (x # xs) k = (if elem x cs then [] else [(x # acc, xs, k)])"
| "rx_match Eps acc s k = [(acc, s, k)]"
| "rx_match (Cat a b) acc s k =
     concat (map (\<lambda>(acc', s', k'). rx_match b acc' s' k') (rx_match a acc s k))"
| "rx_match (Alt a b) acc s k = rx_match a acc s k @ rx_match b acc s k"
| "rx_match (Opt a) acc s k = rx_match a acc s k @ [(acc, s, k)]"
| "rx_match (Star a) acc s k =
     concat (map (\<lambda>(acc', s', k').
                    if length s' < length s then rx_match (Star a) acc' s' k' else [])
                 (rx_match a acc s k)) @ [(acc, s, k)]"
| "rx_match (StarLazy a) acc s k =
     (acc, s, k) #
     concat (map (\<lambda>(acc', s', k').
                    if length s' < length s then rx_match (StarLazy a) acc' s' k' else [])
                 (rx_match a acc s k))"
| "rx_match (Grp n a) acc s k =
     map (\<lambda>(acc', s', k'). (acc' @ acc, s', AList.update n (rev acc') k'))
         (rx_match a [] s k)"
| "rx_match (NotAhead a) acc s k = (if rx_match a [] s k = [] then [(acc, s, k)] else [])"
  by pat_completeness auto
termination
  by (relation "measures [\<lambda>(r, acc, s, k). size r, \<lambda>(r, acc, s, k). length s]") auto

text \<open>\<open>r+\<close> is \<open>rr*\<close>.\<close>

definition Plus :: "rx \<Rightarrow> rx" where
  "Plus r = Cat r (Star r)"

fun lit :: "string \<Rightarrow> rx" where
  "lit [] = Eps"
| "lit [c] = Chr c"
| "lit (c # cs) = Cat (Chr c) (lit cs)"

fun cats :: "rx list \<Rightarrow> rx" where
  "cats [] = Eps"
| "cats [r] = r"
| "cats (r # rs) = Cat r (cats rs)"

fun alts :: "rx list \<Rightarrow> rx" where
  "alts [] = NotAhead Eps"
| "alts [r] = r"
| "alts (r # rs) = Alt r (alts rs)"

text \<open>The number of capturing groups of a pattern.\<close>

fun ngroups :: "rx \<Rightarrow> nat" where
  "ngroups (Cat a b) = ngroups a + ngroups b"
| "ngroups (Alt a b) = ngroups a + ngroups b"
| "ngroups (Opt a) = ngroups a"
| "ngroups (Star a) = ngroups a"
| "ngroups (StarLazy a) = ngroups a"
| "ngroups (Grp n a) = Suc (ngroups a)"
| "ngroups (NotAhead a) = ngroups a"
| "ngroups r = 0"

text \<open>The first match at the start of \<open>s\<close>: the matched text, the rest, the captures.\<close>

definition rx_exec :: "rx \<Rightarrow> string \<Rightarrow> (string \<times> string \<times> caps) option" where
  "rx_exec r s =
     (case rx_match r [] s [] of [] \<Rightarrow> None | (acc, s', k) # _ \<Rightarrow> Some (rev acc, s', k))"

subsection \<open>Replacement templates\<close>

text \<open>
  The replacement argument of \<^verbatim>\<open>String.prototype.replace\<close> is a template:
  \<open>$$\<close> is a dollar sign, \<open>$&\<close> the matched text, \<open>$'\<close> the text after the match, and
  \<open>$n\<close>, \<open>$nn\<close> the capture of that number when the pattern has that many groups (the
  empty string when the group took no part in the match). Anything else is copied. The
  template is the string once the template literal of the source has been filled in, so a
  dollar sign that comes from \<^verbatim>\<open>targetPathBase\<close> is read the same way.
  The form \<open>$`\<close> (the text before the match) is copied: no template of the source can
  hold it, since a URL path never has an unescaped backquote.
\<close>

definition is_digit :: "char \<Rightarrow> bool" where
  "is_digit c = (CHR ''0'' \<le> c \<and> c \<le> CHR ''9'')"

definition digit_val :: "char \<Rightarrow> nat" where
  "digit_val c = of_char c - 48"

definition capture :: "caps \<Rightarrow> nat \<Rightarrow> string" where
  "capture k n = (case map_of k n of None \<Rightarrow> [] | Some v \<Rightarrow> v)"

fun expand :: "nat \<Rightarrow> caps \<Rightarrow> string \<Rightarrow> string \<Rightarrow> string \<Rightarrow> string" where
  "expand m k ma af [] = []"
| "expand m k ma af [c] = [c]"
| "expand m k ma af (c # d # t) =
     (if c \<noteq> CHR ''$'' then c # expand m k ma af (d # t)
      else if d = CHR ''$'' then CHR ''$'' # expand m k ma af t
      else if d = CHR ''&'' then ma @ expand m k ma af t
      else if d = sq then af @ expand m k ma af t
      else if is_digit d then
        (case t of
           e # t' \<Rightarrow>
             if is_digit e \<and> 1 \<le> digit_val d * 10 + digit_val e
                \<and> digit_val d * 10 + digit_val e \<le> m
             then capture k (digit_val d * 10 + digit_val e) @ expand m k ma af t'
             else if 1 \<le> digit_val d \<and> digit_val d \<le> m
             then capture k (digit_val d) @ expand m k ma af t
             else c # expand m k ma af (d # t)
         | [] \<Rightarrow>
             if 1 \<le> digit_val d \<and> digit_val d \<le> m
             then capture k (digit_val d) @ expand m k ma af t
             else c # expand m k ma af (d # t))
      else c # expand m k ma af (d # t))"

subsection \<open>Global replacement\<close>

text \<open>
  \<^verbatim>\<open>s.replace(r, t)\<close> with the flag \<open>g\<close>: the input is scanned from the left; where
  \<open>r\<close> matches, the expanded template is emitted and the scan goes on after the match,
  elsewhere the character is copied. \<open>replace_from r t n s\<close> has \<open>n\<close> characters of a
  match still to skip. An empty match emits the template and copies the character.
\<close>

fun replace_from :: "rx \<Rightarrow> string \<Rightarrow> nat \<Rightarrow> string \<Rightarrow> string" where
  "replace_from r t n [] =
     (case n of
        0 \<Rightarrow> (case rx_exec r [] of None \<Rightarrow> []
              | Some (ma, af, k) \<Rightarrow> expand (ngroups r) k ma af t)
      | Suc _ \<Rightarrow> [])"
| "replace_from r t (Suc n) (c # cs) = replace_from r t n cs"
| "replace_from r t 0 (c # cs) =
     (case rx_exec r (c # cs) of
        None \<Rightarrow> c # replace_from r t 0 cs
      | Some (ma, af, k) \<Rightarrow>
          (case ma of
             [] \<Rightarrow> expand (ngroups r) k ma af t @ c # replace_from r t 0 cs
           | _ # ma' \<Rightarrow> expand (ngroups r) k ma af t @ replace_from r t (length ma') cs))"

definition replace_all :: "rx \<Rightarrow> string \<Rightarrow> string \<Rightarrow> string" where
  "replace_all r t s = replace_from r t 0 s"

section \<open>Configuration\<close>

text \<open>\<^verbatim>\<open>ALLOWED_DOMAINS\<close> (lines 5-12): \<^verbatim>\<open>Set.has\<close> is exact string equality.\<close>

definition ALLOWED_DOMAINS :: "string set" where
  "ALLOWED_DOMAINS =
     {''store.steampowered.com'', ''api.steamcmd.net'', ''cdn.tailwindcss.com'',
      ''m.bsddji.cn'', ''download2342.mediafire.com'', ''steam.ddxnb.cn''}"

text \<open>
  \<^verbatim>\<open>PROXY_CONFIG\<close> (lines 15-22): an object literal, kept as the list of its properties
  in the order of the source.
\<close>

definition PROXY_CONFIG :: "(string \<times> string) list" where
  "PROXY_CONFIG =
     [(''/steam'', ''https://store.steampowered.com''),
      (''/steamcmd'', ''https://api.steamcmd.net''),
      (''/tailwindcss'', ''https://cdn.tailwindcss.com''),
      (''/mediafire'', ''https://mediafire.com''),
      (''/vpn'', ''https://m.bsddji.cn/ssone/0f6daf12a8d5af2552055bb8a01dd9e8''),
      (''/steamd'', ''https://steam.ddxnb.cn'')]"

definition HTML_CONTENT_TYPES :: "string list" where
  "HTML_CONTENT_TYPES = [''text/html'', ''application/xhtml+xml'', ''application/xml'', ''text/xml'']"

definition CSS_CONTENT_TYPES :: "string list" where
  "CSS_CONTENT_TYPES = [''text/css'']"

definition JS_CONTENT_TYPES :: "string list" where
  "JS_CONTENT_TYPES = [''application/javascript'', ''text/javascript'', ''application/x-javascript'']"

text \<open>\<^verbatim>\<open>TYPES.some(type => contentType.includes(type))\<close>\<close>

definition is_type :: "string list \<Rightarrow> string \<Rightarrow> bool" where
  "is_type types contentType = list_ex (str_includes contentType) types"

section \<open>Route resolution (lines 198-209)\<close>

text \<open>The test of line 204: the path is the prefix, or goes on with a slash after it.\<close>

definition route_matches :: "string \<Rightarrow> string \<Rightarrow> bool" where
  "route_matches path p = (path = p \<or> startsWith path (p @ ''/''))"

text \<open>
  The loop of lines 203-209 over the keys: at the first key that matches, both variables
  are set and the loop is left. The pair is \<^verbatim>\<open>(targetBaseUrl, matchedPrefix)\<close>, \<open>None\<close>
  for \<^verbatim>\<open>null\<close>.
\<close>

fun scan_prefixes ::
  "(string \<times> string) list \<Rightarrow> string list \<Rightarrow> string \<Rightarrow> string option \<times> string option" where
  "scan_prefixes cfg [] path = (None, None)"
| "scan_prefixes cfg (p # ps) path =
     (if route_matches path p then (map_of cfg p, Some p) else scan_prefixes cfg ps path)"

text \<open>
  \<^verbatim>\<open>Object.keys(PROXY_CONFIG).sort().reverse()\<close>: the default sort compares strings by
  their code units, which is the lexicographic order of \<^typ>\<open>string\<close> on ASCII keys.
\<close>

definition sorted_prefixes :: "(string \<times> string) list \<Rightarrow> string list" where
  "sorted_prefixes cfg = rev (sort (map fst cfg))"

definition find_route :: "(string \<times> string) list \<Rightarrow> string \<Rightarrow> string option \<times> string option" where
  "find_route cfg path = scan_prefixes cfg (sorted_prefixes cfg) path"

section \<open>Requests, responses and the platform\<close>

text \<open>
  A parsed URL with the attributes the handler reads. \<open>host\<close> includes the port,
  \<open>protocol\<close> ends with a colon, \<open>search\<close> and \<open>hash\<close> are empty or start with \<open>?\<close> and
  \<open>#\<close>. Assigning to \<^verbatim>\<open>url.search\<close> is a field update.
\<close>

record url =
  protocol :: string
  username :: string
  password :: string
  host :: string
  pathname :: string
  search :: string
  hash :: string

text \<open>\<^verbatim>\<open>url.origin\<close> of an http or https URL.\<close>

definition origin :: "url \<Rightarrow> string" where
  "origin u = protocol u @ ''//'' @ host u"

text \<open>\<^verbatim>\<open>url.toString()\<close> of a URL that has a host.\<close>

definition href :: "url \<Rightarrow> string" where
  "href u =
     protocol u @ ''//'' @
     (if username u = [] \<and> password u = [] then []
      else username u @ (if password u = [] then [] else '':'' @ password u) @ ''@'') @
     host u @ pathname u @ search u @ hash u"

text \<open>
  A \<^verbatim>\<open>Headers\<close> object: names are compared without regard to case, so they are kept in
  lower case; \<^verbatim>\<open>set\<close> replaces the value of the name.
\<close>

type_synonym headers = "(string \<times> string) list"

definition hget :: "headers \<Rightarrow> string \<Rightarrow> string option" where
  "hget hs n = map_of hs (lower n)"

definition hhas :: "headers \<Rightarrow> string \<Rightarrow> bool" where
  "hhas hs n = (hget hs n \<noteq> None)"

definition hset :: "string \<Rightarrow> string \<Rightarrow> headers \<Rightarrow> headers" where
  "hset n v hs = AList.update (lower n) v hs"

definition hdelete :: "string \<Rightarrow> headers \<Rightarrow> headers" where
  "hdelete n hs = AList.delete (lower n) hs"

text \<open>
  The inbound \<^verbatim>\<open>Request\<close>. \<open>req_url\<close> is \<^verbatim>\<open>new URL(request.url)\<close> of line 72: the
  \<^verbatim>\<open>url\<close> of a \<^verbatim>\<open>Request\<close> is a serialised URL, so this parse succeeds.
  \<open>ctx_ip\<close> is \<^verbatim>\<open>context.ip\<close>, empty when there is none.
\<close>

record request =
  req_method :: string
  req_url :: url
  req_headers :: headers
  req_body :: "string option"

record edge_context =
  ctx_ip :: string

text \<open>The request handed to \<^verbatim>\<open>fetch\<close>.\<close>

record proxy_request =
  pr_url :: url
  pr_method :: string
  pr_headers :: headers
  pr_body :: "string option"
  pr_redirect :: string

record response =
  status :: nat
  statusText :: string
  rs_headers :: headers
  body :: "string option"

text \<open>
  The operations of the runtime that the handler calls. \<open>Inl e\<close> is an exception,
  \<open>e\<close> its rendering as a string. \<open>parseURL\<close> is \<^verbatim>\<open>new URL(s)\<close>, \<open>resolveURL\<close> is
  \<^verbatim>\<open>new URL(s, base)\<close>. Bodies are kept as bytes and texts as their UTF-8 bytes:
  \<open>decodeText\<close> is what \<^verbatim>\<open>Response.text()\<close> makes of the bytes of a body (a leading
  byte order mark is dropped, a sequence that is not UTF-8 becomes \<open>U+FFFD\<close>).
  \<open>statusError st\<close> and \<open>nullBodyError\<close> are the renderings of the two exceptions of
  \<^verbatim>\<open>new Response\<close> (see \<open>new_Response\<close> below). The constructor of \<^verbatim>\<open>Request\<close>
  is taken to succeed.
\<close>

record platform =
  parseURL :: "string \<Rightarrow> string + url"
  resolveURL :: "string \<Rightarrow> url \<Rightarrow> string + url"
  decodeURIComponent :: "string \<Rightarrow> string + string"
  encodeURIComponent :: "string \<Rightarrow> string"
  fetch :: "proxy_request \<Rightarrow> string + response"
  decodeText :: "string \<Rightarrow> string"
  statusError :: "nat \<Rightarrow> string"
  nullBodyError :: string

text \<open>
  \<^verbatim>\<open>new Response(body, {status, statusText, headers})\<close>, as the Fetch standard has it:
  a status outside \<open>[200, 599]\<close> is a \<^verbatim>\<open>RangeError\<close>; a body that is not
  \<^verbatim>\<open>null\<close> with a null body status is a \<^verbatim>\<open>TypeError\<close>. The null body statuses are
  101, 103, 204, 205 and 304; the first two are below 200. The status text of a fetched
  response is one that the constructor accepts.
\<close>

definition null_body_status :: "nat \<Rightarrow> bool" where
  "null_body_status st = (st = 101 \<or> st = 103 \<or> st = 204 \<or> st = 205 \<or> st = 304)"

definition new_Response ::
  "platform \<Rightarrow> string option \<Rightarrow> nat \<Rightarrow> string \<Rightarrow> headers \<Rightarrow> string + response" where
  "new_Response pf b st stt hs =
     (if st < 200 \<or> 599 < st then Inl (statusError pf st)
      else if b \<noteq> None \<and> null_body_status st then Inl (nullBodyError pf)
      else Inr \<lparr>status = st, statusText = stt, rs_headers = hs, body = b\<rparr>)"

text \<open>
  What the handler gives back: a response, nothing (line 493: the platform falls back to
  its own content), or an exception that no \<^verbatim>\<open>catch\<close> of the handler holds.
\<close>

datatype outcome = Response response | NoResponse | Uncaught string

section \<open>The rewrite passes\<close>

definition quote :: rx where
  "quote = OneOf [dq, sq]"

definition notquote :: rx where
  "notquote = NoneOf [dq, sq]"

text \<open>\<open>.\<close> matches any character but a line terminator.\<close>

definition dot :: rx where
  "dot = NoneOf [CHR 0x0A, CHR 0x0D]"

text \<open>
  \<^verbatim>\<open>${targetDomain}\<close> inside \<^verbatim>\<open>new RegExp(...)\<close>: the host is pattern text, so each of
  its dots matches any character. Where the passes run the host is one of
  \<^const>\<open>ALLOWED_DOMAINS\<close>: letters, digits and dots.
\<close>

definition domain_rx :: "string \<Rightarrow> rx" where
  "domain_rx d = cats (map (\<lambda>c. if c = CHR ''.'' then dot else Chr c) d)"

definition https_rx :: rx where
  "https_rx = cats [lit ''http'', Opt (Chr CHR ''s''), lit ''://'']"

subsection \<open>HTML (lines 279-318)\<close>

definition attr_names :: rx where
  "attr_names = alts [lit ''href'', lit ''src'', lit ''action'', lit ''content'']"

text \<open>\<^verbatim>\<open>/[^"']*?\<close> in a group.\<close>

definition root_path :: rx where
  "root_path = Cat (Chr CHR ''/'') (StarLazy notquote)"

definition rx_attr_abs :: "string \<Rightarrow> rx" where
  "rx_attr_abs targetDomain =
     cats [Grp 1 attr_names, Chr CHR ''='', quote, https_rx, domain_rx targetDomain,
           Grp 2 root_path, quote]"

definition rx_attr_proto :: "string \<Rightarrow> rx" where
  "rx_attr_proto targetDomain =
     cats [Grp 1 attr_names, Chr CHR ''='', quote, lit ''//'', domain_rx targetDomain,
           Grp 2 root_path, quote]"

definition rx_attr_root :: rx where
  "rx_attr_root = cats [Grp 1 attr_names, Chr CHR ''='', quote, Grp 2 root_path, quote]"

text \<open>\<^verbatim>\<open>$1="${url.origin}${matchedPrefix}$2"\<close>\<close>

definition tpl_attr :: "string \<Rightarrow> string \<Rightarrow> string" where
  "tpl_attr url_origin matchedPrefix = ''$1='' @ [dq] @ url_origin @ matchedPrefix @ ''$2'' @ [dq]"

text \<open>\<^verbatim>\<open>/[^)'"]*?\<close> in a group.\<close>

definition url_path :: rx where
  "url_path = Cat (Chr CHR ''/'') (StarLazy (NoneOf [CHR '')'', sq, dq]))"

definition rx_url_abs :: "string \<Rightarrow> rx" where
  "rx_url_abs targetDomain =
     cats [lit ''url('', Opt quote, https_rx, domain_rx targetDomain, Grp 1 url_path,
           Opt quote, Chr CHR '')'']"

definition rx_url_proto :: "string \<Rightarrow> rx" where
  "rx_url_proto targetDomain =
     cats [lit ''url('', Opt quote, lit ''//'', domain_rx targetDomain, Grp 1 url_path,
           Opt quote, Chr CHR '')'']"

definition rx_url_root :: rx where
  "rx_url_root = cats [lit ''url('', Opt quote, Grp 1 url_path, Opt quote, Chr CHR '')'']"

text \<open>\<^verbatim>\<open>url(${url.origin}${matchedPrefix}$1)\<close>\<close>

definition tpl_url :: "string \<Rightarrow> string \<Rightarrow> string" where
  "tpl_url url_origin matchedPrefix = ''url('' @ url_origin @ matchedPrefix @ ''$1)''"

text \<open>\<^verbatim>\<open><base[^>]*href=["']https?://${targetDomain}(?:/[^"']*?)?["'][^>]*>\<close>\<close>

definition rx_base :: "string \<Rightarrow> rx" where
  "rx_base targetDomain =
     cats [lit ''<base'', Star (NoneOf ''>''), lit ''href='', quote, https_rx,
           domain_rx targetDomain, Opt root_path, quote, Star (NoneOf ''>''), Chr CHR ''>'']"

definition tpl_base :: "string \<Rightarrow> string \<Rightarrow> string" where
  "tpl_base url_origin matchedPrefix =
     ''<base href='' @ [dq] @ url_origin @ matchedPrefix @ ''/'' @ [dq] @ ''>''"

text \<open>
  Line 316:
  \<^verbatim>\<open>/(href|src|action|data-src|data-href)=["']((?!https?:\/\/|\/\/|\/)[^"']+)["']/gi\<close>
\<close>

definition rx_attr_bare :: rx where
  "rx_attr_bare =
     cats [Grp 1 (alts [lit ''href'', lit ''src'', lit ''action'', lit ''data-src'',
                        lit ''data-href'']),
           Chr CHR ''='', quote,
           Grp 2 (Cat (NotAhead (alts [https_rx, lit ''//'', lit ''/''])) (Plus notquote)),
           quote]"

text \<open>Line 317: \<^verbatim>\<open>$1="${url.origin}${matchedPrefix}/${targetPathBase}$2"\<close>\<close>

definition tpl_attr_bare :: "string \<Rightarrow> string \<Rightarrow> string \<Rightarrow> string" where
  "tpl_attr_bare url_origin matchedPrefix targetPathBase =
     ''$1='' @ [dq] @ url_origin @ matchedPrefix @ ''/'' @ targetPathBase @ ''$2'' @ [dq]"

text \<open>
  The eight substitutions of lines 280-318, in the order of the source.
  \<^verbatim>\<open>SPECIAL_REPLACEMENTS\<close> is empty, so the loop of lines 321-326 never runs.
\<close>

definition html_passes :: "string \<Rightarrow> string \<Rightarrow> string \<Rightarrow> string \<Rightarrow> string \<Rightarrow> string" where
  "html_passes url_origin matchedPrefix targetDomain targetPathBase content =
     (let c1 = replace_all (rx_attr_abs targetDomain) (tpl_attr url_origin matchedPrefix) content;
          c2 = replace_all (rx_attr_proto targetDomain) (tpl_attr url_origin matchedPrefix) c1;
          c3 = replace_all rx_attr_root (tpl_attr url_origin matchedPrefix) c2;
          c4 = replace_all (rx_url_abs targetDomain) (tpl_url url_origin matchedPrefix) c3;
          c5 = replace_all (rx_url_proto targetDomain) (tpl_url url_origin matchedPrefix) c4;
          c6 = replace_all rx_url_root (tpl_url url_origin matchedPrefix) c5;
          c7 = replace_all (rx_base targetDomain) (tpl_base url_origin matchedPrefix) c6
      in replace_all rx_attr_bare (tpl_attr_bare url_origin matchedPrefix targetPathBase) c7)"

abbreviation nl :: char where "nl \<equiv> CHR 0x0A"

text \<open>The template literal \<^verbatim>\<open>fixScript\<close> of lines 329-372, line by line.\<close>

definition fixScript :: "string \<Rightarrow> string \<Rightarrow> string" where
  "fixScript url_origin matchedPrefix = concat
     [[nl],
      ''          <script>'' @ [nl],
      ''          (function() {'' @ [nl],
      ''            const observer = new MutationObserver(function(mutations) {'' @ [nl],
      ''              mutations.forEach(function(mutation) {'' @ [nl],
      ''                if (mutation.type === '' @ [sq] @ ''childList'' @ [sq] @ '') {'' @ [nl],
      ''                  mutation.addedNodes.forEach(function(node) {'' @ [nl],
      ''                    if (node.nodeType === 1) {'' @ [nl],
      ''                      const elements = node.querySelectorAll('' @ [sq] @ ''script[src], link[href], img[src], a[href], [data-src], [data-href]'' @ [sq] @ '');'' @ [nl],
      ''                      elements.forEach(function(el) {'' @ [nl],
      ''                        ['' @ [sq] @ ''src'' @ [sq] @ '', '' @ [sq] @ ''href'' @ [sq] @ '', '' @ [sq] @ ''data-src'' @ [sq] @ '', '' @ [sq] @ ''data-href'' @ [sq] @ ''].forEach(function(attr) {'' @ [nl],
      ''                          if (el.hasAttribute(attr)) {'' @ [nl],
      ''                            let val = el.getAttribute(attr);'' @ [nl],
      ''                            if (val && !val.match(/^(https?:|//|'' @ url_origin @ '')/)) {'' @ [nl],
      ''                              if (val.startsWith('' @ [sq] @ ''/'' @ [sq] @ '')) {'' @ [nl],
      ''                                el.setAttribute(attr, '' @ [sq] @ url_origin @ matchedPrefix @ [sq] @ '' + val);'' @ [nl],
      ''                              }'' @ [nl],
      ''                            }'' @ [nl],
      ''                          }'' @ [nl],
      ''                        });'' @ [nl],
      ''                      });'' @ [nl],
      ''                      '' @ [nl],
      ''                      const elementsWithStyle = node.querySelectorAll('' @ [sq] @ ''[style*='' @ [dq] @ ''url('' @ [dq] @ '']'' @ [sq] @ '');'' @ [nl],
      ''                      elementsWithStyle.forEach(function(el) {'' @ [nl],
      ''                        let style = el.getAttribute('' @ [sq] @ ''style'' @ [sq] @ '');'' @ [nl],
      ''                        if (style) {'' @ [nl],
      ''                          style = style.replace(/url'' @ [bsl] @ ''(['' @ [sq, dq] @ '']?('' @ [bsl] @ ''/[^)'' @ [sq, dq] @ '']*?)['' @ [sq, dq] @ '']?'' @ [bsl] @ '')/gi, '' @ [nl],
      ''                                               '' @ [sq] @ ''url('' @ url_origin @ matchedPrefix @ ''$1)'' @ [sq] @ '');'' @ [nl],
      ''                          el.setAttribute('' @ [sq] @ ''style'' @ [sq] @ '', style);'' @ [nl],
      ''                        }'' @ [nl],
      ''                      });'' @ [nl],
      ''                    }'' @ [nl],
      ''                  });'' @ [nl],
      ''                }'' @ [nl],
      ''              });'' @ [nl],
      ''            });'' @ [nl],
      ''            '' @ [nl],
      ''            observer.observe(document.body, {'' @ [nl],
      ''              childList: true,'' @ [nl],
      ''              subtree: true'' @ [nl],
      ''            });'' @ [nl],
      ''          })();'' @ [nl],
      ''          </script>'' @ [nl],
      ''          '']"

text \<open>Lines 374-379: the script goes before the last \<^verbatim>\<open></body>\<close>, or at the end.\<close>

definition inject_script :: "string \<Rightarrow> string \<Rightarrow> string" where
  "inject_script script content =
     (case lastIndexOf content ''</body>'' of
        Some bodyCloseTagPos \<Rightarrow>
          take bodyCloseTagPos content @ script @ drop bodyCloseTagPos content
      | None \<Rightarrow> content @ script)"

definition rewrite_html :: "string \<Rightarrow> string \<Rightarrow> string \<Rightarrow> string \<Rightarrow> string \<Rightarrow> string" where
  "rewrite_html url_origin matchedPrefix targetDomain targetPathBase content =
     inject_script (fixScript url_origin matchedPrefix)
       (html_passes url_origin matchedPrefix targetDomain targetPathBase content)"

subsection \<open>CSS (lines 383-406)\<close>

text \<open>
  Line 403:
  \<^verbatim>\<open>/url\(['"]?(?!https?:\/\/|\/\/|\/|data:|\#)([^)'"]*)['"]?\)/gi\<close>
\<close>

definition rx_url_bare :: rx where
  "rx_url_bare =
     cats [lit ''url('', Opt quote,
           NotAhead (alts [https_rx, lit ''//'', lit ''/'', lit ''data:'', lit ''#'']),
           Grp 1 (Star (NoneOf [CHR '')'', sq, dq])), Opt quote, Chr CHR '')'']"

definition tpl_url_bare :: "string \<Rightarrow> string \<Rightarrow> string \<Rightarrow> string" where
  "tpl_url_bare url_origin matchedPrefix cssDir =
     ''url('' @ url_origin @ matchedPrefix @ cssDir @ ''$1)''"

definition rewrite_css :: "string \<Rightarrow> string \<Rightarrow> string \<Rightarrow> string \<Rightarrow> string \<Rightarrow> string" where
  "rewrite_css url_origin matchedPrefix targetDomain cssDir content =
     (let c1 = replace_all (rx_url_abs targetDomain) (tpl_url url_origin matchedPrefix) content;
          c2 = replace_all (rx_url_proto targetDomain) (tpl_url url_origin matchedPrefix) c1;
          c3 = replace_all rx_url_root (tpl_url url_origin matchedPrefix) c2
      in replace_all rx_url_bare (tpl_url_bare url_origin matchedPrefix cssDir) c3)"

subsection \<open>JavaScript (lines 409-424)\<close>

definition js_path :: rx where
  "js_path = Cat (Chr CHR ''/'') (StarLazy (NoneOf [sq, dq]))"

definition rx_js_abs :: "string \<Rightarrow> rx" where
  "rx_js_abs targetDomain =
     cats [Grp 1 (OneOf [sq, dq]), https_rx, domain_rx targetDomain, Grp 2 js_path,
           Grp 3 (OneOf [sq, dq])]"

definition rx_js_proto :: "string \<Rightarrow> rx" where
  "rx_js_proto targetDomain =
     cats [Grp 1 (OneOf [sq, dq]), lit ''//'', domain_rx targetDomain, Grp 2 js_path,
           Grp 3 (OneOf [sq, dq])]"

definition asset_ext :: rx where
  "asset_ext =
     alts (map lit [''js'', ''css'', ''png'', ''jpg'', ''jpeg'', ''gif'', ''svg'', ''webp'', ''ico'',
                    ''mp3'', ''mp4'', ''webm'', ''ogg'', ''woff'', ''woff2'', ''ttf'', ''eot''])"

definition rx_js_asset :: rx where
  "rx_js_asset =
     cats [Grp 1 (OneOf [sq, dq]),
           Grp 2 (cats [Chr CHR ''/'', StarLazy (NoneOf [sq, dq]), Chr CHR ''.'', asset_ext]),
           Grp 3 (OneOf [sq, dq])]"

text \<open>\<^verbatim>\<open>$1${url.origin}${matchedPrefix}$2$3\<close>\<close>

definition tpl_js :: "string \<Rightarrow> string \<Rightarrow> string" where
  "tpl_js url_origin matchedPrefix = ''$1'' @ url_origin @ matchedPrefix @ ''$2$3''"

definition rewrite_js :: "string \<Rightarrow> string \<Rightarrow> string \<Rightarrow> string \<Rightarrow> string" where
  "rewrite_js url_origin matchedPrefix targetDomain content =
     (let c1 = replace_all (rx_js_abs targetDomain) (tpl_js url_origin matchedPrefix) content;
          c2 = replace_all (rx_js_proto targetDomain) (tpl_js url_origin matchedPrefix) c1
      in replace_all rx_js_asset (tpl_js url_origin matchedPrefix) c2)"

text \<open>
  \<^verbatim>\<open>pathname.substring(0, pathname.lastIndexOf('/') + 1)\<close> (lines 276 and 400).
\<close>

definition path_dir :: "string \<Rightarrow> string" where
  "path_dir p = (case lastIndexOf p ''/'' of None \<Rightarrow> [] | Some i \<Rightarrow> take (Suc i) p)"

text \<open>Lines 274-424: the three families are tested one after the other on the same text.\<close>

definition rewrite_content :: "url \<Rightarrow> string \<Rightarrow> url \<Rightarrow> string \<Rightarrow> string \<Rightarrow> string" where
  "rewrite_content url matchedPrefix targetUrl contentType content =
     (let targetDomain = host targetUrl;
          targetPathBase = path_dir (pathname targetUrl);
          c1 = (if is_type HTML_CONTENT_TYPES contentType
                then rewrite_html (origin url) matchedPrefix targetDomain targetPathBase content
                else content);
          c2 = (if is_type CSS_CONTENT_TYPES contentType
                then rewrite_css (origin url) matchedPrefix targetDomain
                       (path_dir (pathname targetUrl)) c1
                else c1)
      in if is_type JS_CONTENT_TYPES contentType
         then rewrite_js (origin url) matchedPrefix targetDomain c2
         else c2)"

section \<open>The handler\<close>

text \<open>The header object of a \<^verbatim>\<open>Response\<close> that is built from an object literal.\<close>

definition mk_headers :: "(string \<times> string) list \<Rightarrow> headers" where
  "mk_headers kvs = foldl (\<lambda>hs (n, v). hset n v hs) [] kvs"

text \<open>Lines 59-70.\<close>

definition preflight_response :: response where
  "preflight_response =
     \<lparr>status = 204, statusText = [],
      rs_headers = mk_headers
        [(''Access-Control-Allow-Origin'', ''*''),
         (''Access-Control-Allow-Methods'', ''GET, POST, PUT, DELETE, PATCH, OPTIONS''),
         (''Access-Control-Allow-Headers'',
          ''Content-Type, Authorization, X-Requested-With, Accept, Origin, Range''),
         (''Access-Control-Max-Age'', ''86400''),
         (''Cache-Control'', ''public, max-age=86400'')],
      body = None\<rparr>"

text \<open>
  The six plain-text error responses share their status line and headers; the texts are
  the UTF-8 bytes of the messages of the source.
\<close>

definition plain_text :: "nat \<Rightarrow> string \<Rightarrow> response" where
  "plain_text st msg =
     \<lparr>status = st, statusText = [],
      rs_headers = mk_headers
        [(''Access-Control-Allow-Origin'', ''*''),
         (''Content-Type'', ''text/plain;charset=UTF-8'')],
      body = Some msg\<rparr>"

text \<open>Line 95: the message is \<open>U+7981 U+6B62 U+4EE3 U+7406 U+8BE5 U+57DF U+540D U+FF1A\<close>, then the host.\<close>

definition generic_forbidden :: "string \<Rightarrow> response" where
  "generic_forbidden h =
     plain_text 403
       ([CHR 0xE7, CHR 0xA6, CHR 0x81, CHR 0xE6, CHR 0xAD, CHR 0xA2, CHR 0xE4, CHR 0xBB,
         CHR 0xA3, CHR 0xE7, CHR 0x90, CHR 0x86, CHR 0xE8, CHR 0xAF, CHR 0xA5, CHR 0xE5,
         CHR 0x9F, CHR 0x9F, CHR 0xE5, CHR 0x90, CHR 0x8D, CHR 0xEF, CHR 0xBC, CHR 0x9A] @ h)"

text \<open>
  Line 174: \<open>U+91CD U+5B9A U+5411 U+76EE U+6807 U+57DF U+540D\<close>, a space, the host, a
  space, \<open>U+4E0D U+5728 U+5141 U+8BB8 U+5217 U+8868 U+5185\<close>.
\<close>

definition generic_redirect_forbidden :: "string \<Rightarrow> response" where
  "generic_redirect_forbidden h =
     plain_text 403
       ([CHR 0xE9, CHR 0x87, CHR 0x8D, CHR 0xE5, CHR 0xAE, CHR 0x9A, CHR 0xE5, CHR 0x90,
         CHR 0x91, CHR 0xE7, CHR 0x9B, CHR 0xAE, CHR 0xE6, CHR 0xA0, CHR 0x87, CHR 0xE5,
         CHR 0x9F, CHR 0x9F, CHR 0xE5, CHR 0x90, CHR 0x8D, CHR 0x20] @ h @
        [CHR 0x20, CHR 0xE4, CHR 0xB8, CHR 0x8D, CHR 0xE5, CHR 0x9C, CHR 0xA8, CHR 0xE5,
         CHR 0x85, CHR 0x81, CHR 0xE8, CHR 0xAE, CHR 0xB8, CHR 0xE5, CHR 0x88, CHR 0x97,
         CHR 0xE8, CHR 0xA1, CHR 0xA8, CHR 0xE5, CHR 0x86, CHR 0x85])"

text \<open>
  Line 187: \<open>U+4EE3 U+7406 U+8BF7 U+6C42 U+5931 U+8D25\<close>, a colon, a space, the
  exception.
\<close>

definition generic_failed :: "string \<Rightarrow> response" where
  "generic_failed e =
     plain_text 502
       ([CHR 0xE4, CHR 0xBB, CHR 0xA3, CHR 0xE7, CHR 0x90, CHR 0x86, CHR 0xE8, CHR 0xAF,
         CHR 0xB7, CHR 0xE6, CHR 0xB1, CHR 0x82, CHR 0xE5, CHR 0xA4, CHR 0xB1, CHR 0xE8,
         CHR 0xB4, CHR 0xA5, CHR 0x3A, CHR 0x20] @ e)"

text \<open>
  Line 219: \<open>U+76EE U+6807 U+57DF U+540D\<close>, a space, the host, a space,
  \<open>U+4E0D U+5728 U+5141 U+8BB8 U+5217 U+8868 U+5185\<close>.
\<close>

definition prefix_forbidden :: "string \<Rightarrow> response" where
  "prefix_forbidden h =
     plain_text 403
       ([CHR 0xE7, CHR 0x9B, CHR 0xAE, CHR 0xE6, CHR 0xA0, CHR 0x87, CHR 0xE5, CHR 0x9F,
         CHR 0x9F, CHR 0xE5, CHR 0x90, CHR 0x8D, CHR 0x20] @ h @
        [CHR 0x20, CHR 0xE4, CHR 0xB8, CHR 0x8D, CHR 0xE5, CHR 0x9C, CHR 0xA8, CHR 0xE5,
         CHR 0x85, CHR 0x81, CHR 0xE8, CHR 0xAE, CHR 0xB8, CHR 0xE5, CHR 0x88, CHR 0x97,
         CHR 0xE8, CHR 0xA1, CHR 0xA8, CHR 0xE5, CHR 0x86, CHR 0x85])"

text \<open>Line 465: the same characters as on line 174.\<close>

definition prefix_redirect_forbidden :: "string \<Rightarrow> response" where
  "prefix_redirect_forbidden h =
     plain_text 403
       ([CHR 0xE9, CHR 0x87, CHR 0x8D, CHR 0xE5, CHR 0xAE, CHR 0x9A, CHR 0xE5, CHR 0x90,
         CHR 0x91, CHR 0xE7, CHR 0x9B, CHR 0xAE, CHR 0xE6, CHR 0xA0, CHR 0x87, CHR 0xE5,
         CHR 0x9F, CHR 0x9F, CHR 0xE5, CHR 0x90, CHR 0x8D, CHR 0x20] @ h @
        [CHR 0x20, CHR 0xE4, CHR 0xB8, CHR 0x8D, CHR 0xE5, CHR 0x9C, CHR 0xA8, CHR 0xE5,
         CHR 0x85, CHR 0x81, CHR 0xE8, CHR 0xAE, CHR 0xB8, CHR 0xE5, CHR 0x88, CHR 0x97,
         CHR 0xE8, CHR 0xA1, CHR 0xA8, CHR 0xE5, CHR 0x86, CHR 0x85])"

text \<open>Line 482: \<open>U+4EE3 U+7406 U+8BF7 U+6C42 U+5931 U+8D25\<close>.\<close>

definition prefix_failed :: response where
  "prefix_failed =
     plain_text 502
       [CHR 0xE4, CHR 0xBB, CHR 0xA3, CHR 0xE7, CHR 0x90, CHR 0x86, CHR 0xE8, CHR 0xAF,
        CHR 0xB7, CHR 0xE6, CHR 0xB1, CHR 0x82, CHR 0xE5, CHR 0xA4, CHR 0xB1, CHR 0xE8,
        CHR 0xB4, CHR 0xA5]"

subsection \<open>The upstream request (lines 112-141 and 233-258)\<close>

text \<open>
  Lines 132-141 and 249-258. A \<^verbatim>\<open>Referer\<close> that does not parse leaves the header as
  it came: the inner \<^verbatim>\<open>catch\<close> is empty.
\<close>

definition rewrite_referer :: "platform \<Rightarrow> request \<Rightarrow> url \<Rightarrow> headers \<Rightarrow> headers" where
  "rewrite_referer pf request targetUrl hs =
     (case hget (req_headers request) ''referer'' of
        None \<Rightarrow> hset ''referer'' (protocol targetUrl @ ''//'' @ host targetUrl @ ''/'') hs
      | Some referer \<Rightarrow>
          if referer = [] then
            hset ''referer'' (protocol targetUrl @ ''//'' @ host targetUrl @ ''/'') hs
          else
            (case parseURL pf referer of
               Inl e \<Rightarrow> hs
             | Inr refUrl \<Rightarrow>
                 hset ''referer''
                   (protocol targetUrl @ ''//'' @ host targetUrl @ pathname refUrl @ search refUrl)
                   hs))"

text \<open>The two paths build the upstream request with the same statements.\<close>

definition build_proxy_request :: "platform \<Rightarrow> request \<Rightarrow> edge_context \<Rightarrow> url \<Rightarrow> proxy_request" where
  "build_proxy_request pf request ctx targetUrl =
     (let url = req_url request;
          clientIp =
            (if ctx_ip ctx \<noteq> [] then ctx_ip ctx
             else (case hget (req_headers request) ''x-nf-client-connection-ip'' of
                     Some v \<Rightarrow> v | None \<Rightarrow> []));
          h1 = hset ''Host'' (host targetUrl) (req_headers request);
          h2 = hset ''X-Forwarded-For'' clientIp h1;
          h3 = hset ''X-Forwarded-Host'' (host url) h2;
          h4 = hset ''X-Forwarded-Proto'' (remove_first CHR '':'' (protocol url)) h3;
          h5 = hdelete ''accept-encoding'' h4
      in \<lparr>pr_url = targetUrl, pr_method = req_method request,
          pr_headers = rewrite_referer pf request targetUrl h5,
          pr_body = req_body request, pr_redirect = ''manual''\<rparr>)"

text \<open>Lines 154-162 and 440-448: CORS headers set, security headers removed.\<close>

definition normalize_headers :: "headers \<Rightarrow> headers" where
  "normalize_headers hs =
     hdelete ''X-Content-Type-Options''
       (hdelete ''X-Frame-Options''
         (hdelete ''Content-Security-Policy-Report-Only''
           (hdelete ''Content-Security-Policy''
             (hset ''Access-Control-Allow-Headers''
                ''Content-Type, Authorization, X-Requested-With, Accept, Origin, Range''
               (hset ''Access-Control-Allow-Methods'' ''GET, POST, PUT, DELETE, PATCH, OPTIONS''
                 (hset ''Access-Control-Allow-Origin'' ''*'' hs))))))"

text \<open>The \<^verbatim>\<open>Location\<close> of a response whose status is in \<open>[300, 400)\<close> (lines 165-166, 460-461).\<close>

definition redirect_location :: "response \<Rightarrow> string option" where
  "redirect_location response =
     (if 300 \<le> status response \<and> status response < 400
      then hget (rs_headers response) ''location'' else None)"

subsection \<open>The generic path (lines 76-195)\<close>

text \<open>
  Lines 165-182. \<open>Inl e\<close> is an exception thrown inside the \<^verbatim>\<open>try\<close>, \<open>Inr r\<close> a
  response returned from it.
\<close>

definition generic_redirect :: "platform \<Rightarrow> url \<Rightarrow> url \<Rightarrow> response \<Rightarrow> response \<Rightarrow> string + response" where
  "generic_redirect pf url targetUrl response newResponse =
     (case redirect_location response of
        None \<Rightarrow> Inr newResponse
      | Some location \<Rightarrow>
          (case resolveURL pf location targetUrl of
             Inl e \<Rightarrow> Inl e
           | Inr redirectedUrl \<Rightarrow>
               if host redirectedUrl \<in> ALLOWED_DOMAINS then
                 Inr (newResponse\<lparr>rs_headers :=
                        hset ''Location''
                          (origin url @ ''/proxy/'' @ encodeURIComponent pf (href redirectedUrl))
                          (rs_headers newResponse)\<rparr>)
               else Inr (generic_redirect_forbidden (host redirectedUrl))))"

text \<open>
  Lines 147-184: the new response is built from the body, the status and the headers of
  the upstream response (line 147, which may throw), then its headers are changed.
\<close>

definition generic_respond :: "platform \<Rightarrow> url \<Rightarrow> url \<Rightarrow> response \<Rightarrow> string + response" where
  "generic_respond pf url targetUrl response =
     (case new_Response pf (body response) (status response) (statusText response)
             (rs_headers response) of
        Inl e \<Rightarrow> Inl e
      | Inr newResponse \<Rightarrow>
          generic_redirect pf url targetUrl response
            (newResponse\<lparr>rs_headers := normalize_headers (rs_headers newResponse)\<rparr>))"

text \<open>Lines 79-89: the target string taken from the path.\<close>

definition generic_target_string :: "platform \<Rightarrow> string \<Rightarrow> string + string" where
  "generic_target_string pf path =
     (let s = drop (length ''/proxy/'') path in
      case (if startsWith s ''http%3A%2F%2F'' \<or> startsWith s ''https%3A%2F%2F''
            then decodeURIComponent pf s else Inr s) of
        Inl e \<Rightarrow> Inl e
      | Inr s' \<Rightarrow>
          Inr (if \<not> startsWith s' ''http://'' \<and> \<not> startsWith s' ''https://''
               then ''https://'' @ s' else s'))"

text \<open>
  Lines 104-107: the query of the inbound URL goes to the target when there is one and
  the target string has no question mark.
\<close>

definition inherit_query :: "url \<Rightarrow> string \<Rightarrow> url \<Rightarrow> url" where
  "inherit_query url targetUrlString targetUrl =
     (if search url \<noteq> [] \<and> \<not> str_includes targetUrlString ''?''
      then targetUrl\<lparr>search := search url\<rparr> else targetUrl)"

text \<open>
  The body of the \<^verbatim>\<open>try\<close> of lines 77-184, with the requests handed to
  \<^verbatim>\<open>fetch\<close> so far.
\<close>

definition generic_try ::
  "platform \<Rightarrow> request \<Rightarrow> edge_context \<Rightarrow> proxy_request list \<times> (string + response)" where
  "generic_try pf request ctx =
     (let url = req_url request in
      case generic_target_string pf (pathname url) of
        Inl e \<Rightarrow> ([], Inl e)
      | Inr targetUrlString \<Rightarrow>
          (case parseURL pf targetUrlString of
             Inl e \<Rightarrow> ([], Inl e)
           | Inr parsed \<Rightarrow>
               if host parsed \<notin> ALLOWED_DOMAINS then ([], Inr (generic_forbidden (host parsed)))
               else
                 let targetUrl = inherit_query url targetUrlString parsed;
                     proxyRequest = build_proxy_request pf request ctx targetUrl
                 in (case fetch pf proxyRequest of
                       Inl e \<Rightarrow> ([proxyRequest], Inl e)
                     | Inr response \<Rightarrow>
                         ([proxyRequest], generic_respond pf url targetUrl response))))"

text \<open>Lines 185-194: every exception of the \<^verbatim>\<open>try\<close> becomes a 502.\<close>

definition generic_proxy ::
  "platform \<Rightarrow> request \<Rightarrow> edge_context \<Rightarrow> proxy_request list \<times> outcome" where
  "generic_proxy pf request ctx =
     (case generic_try pf request ctx of
        (fetched, Inl e) \<Rightarrow> (fetched, Response (generic_failed e))
      | (fetched, Inr r) \<Rightarrow> (fetched, Response r))"

subsection \<open>The prefix path (lines 212-490)\<close>

text \<open>Lines 460-476.\<close>

definition prefix_redirect ::
  "platform \<Rightarrow> url \<Rightarrow> string \<Rightarrow> url \<Rightarrow> response \<Rightarrow> response \<Rightarrow> string + response" where
  "prefix_redirect pf url matchedPrefix targetUrl response newResponse =
     (case redirect_location response of
        None \<Rightarrow> Inr newResponse
      | Some location \<Rightarrow>
          (case resolveURL pf location targetUrl of
             Inl e \<Rightarrow> Inl e
           | Inr redirectedUrl \<Rightarrow>
               if host redirectedUrl \<notin> ALLOWED_DOMAINS then
                 Inr (prefix_redirect_forbidden (host redirectedUrl))
               else
                 Inr (newResponse\<lparr>rs_headers :=
                        hset ''Location''
                          (origin url @ matchedPrefix @ pathname redirectedUrl
                           @ search redirectedUrl)
                          (rs_headers newResponse)\<rparr>)))"

text \<open>Lines 451-457.\<close>

definition cache_headers :: "string \<Rightarrow> headers \<Rightarrow> headers" where
  "cache_headers contentType hs =
     (if is_type HTML_CONTENT_TYPES contentType then
        hset ''Expires'' ''0''
          (hset ''Pragma'' ''no-cache''
            (hset ''Cache-Control'' ''no-store, no-cache, must-revalidate, proxy-revalidate'' hs))
      else hset ''Cache-Control'' ''public, max-age=86400'' hs)"

text \<open>\<^verbatim>\<open>response.headers.get('content-type') || ''\<close> (line 262).\<close>

definition content_type :: "response \<Rightarrow> string" where
  "content_type response =
     (case hget (rs_headers response) ''content-type'' of Some v \<Rightarrow> v | None \<Rightarrow> [])"

text \<open>Lines 266-268.\<close>

definition needsRewrite :: "string \<Rightarrow> bool" where
  "needsRewrite contentType =
     (is_type HTML_CONTENT_TYPES contentType \<or> is_type CSS_CONTENT_TYPES contentType
      \<or> is_type JS_CONTENT_TYPES contentType)"

text \<open>
  Lines 264-437: the body handed to \<^verbatim>\<open>new Response\<close> on line 426 or 432. With a
  content type to rewrite it is a string, also when the upstream response has no body:
  the text of such a response is empty, and the rewritten text is not \<^verbatim>\<open>null\<close>.
\<close>

definition prefix_body :: "platform \<Rightarrow> url \<Rightarrow> string \<Rightarrow> url \<Rightarrow> response \<Rightarrow> string option" where
  "prefix_body pf url matchedPrefix targetUrl response =
     (let contentType = content_type response
      in if needsRewrite contentType then
           Some (rewrite_content url matchedPrefix targetUrl contentType
                   (decodeText pf (case body response of None \<Rightarrow> [] | Some bytes \<Rightarrow> bytes)))
         else body response)"

text \<open>Lines 440-457: the headers of the new response.\<close>

definition prefix_headers :: "response \<Rightarrow> headers" where
  "prefix_headers response =
     cache_headers (content_type response) (normalize_headers (rs_headers response))"

text \<open>
  Lines 262-478: the new response is built on line 426 or 432 (which may throw), its
  headers are changed, then the redirect is handled.
\<close>

definition prefix_respond ::
  "platform \<Rightarrow> url \<Rightarrow> string \<Rightarrow> url \<Rightarrow> response \<Rightarrow> string + response" where
  "prefix_respond pf url matchedPrefix targetUrl response =
     (case new_Response pf (prefix_body pf url matchedPrefix targetUrl response)
             (status response) (statusText response) (rs_headers response) of
        Inl e \<Rightarrow> Inl e
      | Inr newResponse \<Rightarrow>
          prefix_redirect pf url matchedPrefix targetUrl response
            (newResponse\<lparr>rs_headers :=
               cache_headers (content_type response)
                 (normalize_headers (rs_headers newResponse))\<rparr>))"

text \<open>The body of the \<^verbatim>\<open>try\<close> of lines 232-478.\<close>

definition prefix_try ::
  "platform \<Rightarrow> request \<Rightarrow> edge_context \<Rightarrow> string \<Rightarrow> url
     \<Rightarrow> proxy_request list \<times> (string + response)" where
  "prefix_try pf request ctx matchedPrefix targetUrl =
     (let proxyRequest = build_proxy_request pf request ctx targetUrl in
      case fetch pf proxyRequest of
        Inl e \<Rightarrow> ([proxyRequest], Inl e)
      | Inr response \<Rightarrow>
          ([proxyRequest], prefix_respond pf (req_url request) matchedPrefix targetUrl response))"

text \<open>
  Lines 213-490. The URL of line 215 is built before the \<^verbatim>\<open>try\<close>: an exception
  there leaves the handler.
\<close>

definition prefix_proxy ::
  "platform \<Rightarrow> request \<Rightarrow> edge_context \<Rightarrow> string \<Rightarrow> string
     \<Rightarrow> proxy_request list \<times> outcome" where
  "prefix_proxy pf request ctx targetBaseUrl matchedPrefix =
     (let url = req_url request;
          remainingPath = drop (length matchedPrefix) (pathname url);
          targetUrlString = strip_trailing_slash targetBaseUrl @ remainingPath
      in case parseURL pf targetUrlString of
           Inl e \<Rightarrow> ([], Uncaught e)
         | Inr parsed \<Rightarrow>
             if host parsed \<notin> ALLOWED_DOMAINS then ([], Response (prefix_forbidden (host parsed)))
             else
               (case prefix_try pf request ctx matchedPrefix (parsed\<lparr>search := search url\<rparr>) of
                  (fetched, Inl e) \<Rightarrow> (fetched, Response prefix_failed)
                | (fetched, Inr r) \<Rightarrow> (fetched, Response r)))"

subsection \<open>The entry point (lines 57-494)\<close>

text \<open>
  The result is the list of the requests handed to \<^verbatim>\<open>fetch\<close> and what the handler
  gives back. Line 212 tests both variables for truth: an empty string is false.
\<close>

definition route_of :: "(string \<times> string) list \<Rightarrow> string \<Rightarrow> (string \<times> string) option" where
  "route_of cfg path =
     (case find_route cfg path of
        (Some targetBaseUrl, Some matchedPrefix) \<Rightarrow>
          if targetBaseUrl \<noteq> [] \<and> matchedPrefix \<noteq> [] then Some (targetBaseUrl, matchedPrefix)
          else None
      | _ \<Rightarrow> None)"

definition handler ::
  "platform \<Rightarrow> request \<Rightarrow> edge_context \<Rightarrow> proxy_request list \<times> outcome" where
  "handler pf request ctx =
     (if req_method request = ''OPTIONS'' then ([], Response preflight_response)
      else if startsWith (pathname (req_url request)) ''/proxy/'' then
        generic_proxy pf request ctx
      else
        (case route_of PROXY_CONFIG (pathname (req_url request)) of
           Some (targetBaseUrl, matchedPrefix) \<Rightarrow>
             prefix_proxy pf request ctx targetBaseUrl matchedPrefix
         | None \<Rightarrow> ([], NoResponse)))"

section \<open>A small runtime for worked examples\<close>

text \<open>
  The theorems below hold for every runtime. The worked examples run the handler on one
  that parses URLs of the plain form \<open>scheme://host/path?query#fragment\<close> with the
  scheme \<open>http\<close> or \<open>https\<close>, resolves absolute and root-relative references, and
  encodes and decodes percent escapes as \<^verbatim>\<open>encodeURIComponent\<close> and
  \<^verbatim>\<open>decodeURIComponent\<close> do on ASCII text. The upstream is a parameter.
\<close>

definition parse_after_scheme :: "string \<Rightarrow> string \<Rightarrow> string + url" where
  "parse_after_scheme proto r =
     (let h = takeWhile (\<lambda>c. \<not> elem c ''/?#'') r;
          r1 = dropWhile (\<lambda>c. \<not> elem c ''/?#'') r;
          p = takeWhile (\<lambda>c. \<not> elem c ''?#'') r1;
          r2 = dropWhile (\<lambda>c. \<not> elem c ''?#'') r1;
          q = takeWhile (\<lambda>c. c \<noteq> CHR ''#'') r2;
          f = dropWhile (\<lambda>c. c \<noteq> CHR ''#'') r2
      in if h = [] then Inl ''TypeError: Invalid URL''
         else Inr \<lparr>protocol = proto, username = [], password = [], host = h,
                  pathname = (if p = [] then ''/'' else p),
                  search = (if q = ''?'' then [] else q),
                  hash = (if f = ''#'' then [] else f)\<rparr>)"

definition simple_parseURL :: "string \<Rightarrow> string + url" where
  "simple_parseURL s =
     (if startsWith s ''https://'' then parse_after_scheme ''https:'' (drop 8 s)
      else if startsWith s ''http://'' then parse_after_scheme ''http:'' (drop 7 s)
      else Inl ''TypeError: Invalid URL'')"

definition simple_resolveURL :: "string \<Rightarrow> url \<Rightarrow> string + url" where
  "simple_resolveURL loc base =
     (if startsWith loc ''http://'' \<or> startsWith loc ''https://'' then simple_parseURL loc
      else if startsWith loc ''/'' \<and> \<not> startsWith loc ''//'' then simple_parseURL (origin base @ loc)
      else Inl ''TypeError: Invalid URL'')"

definition hex_val :: "char \<Rightarrow> nat option" where
  "hex_val c =
     (if CHR ''0'' \<le> c \<and> c \<le> CHR ''9'' then Some (of_char c - 48)
      else if CHR ''A'' \<le> c \<and> c \<le> CHR ''F'' then Some (of_char c - 55)
      else if CHR ''a'' \<le> c \<and> c \<le> CHR ''f'' then Some (of_char c - 87)
      else None)"

fun pct_decode :: "string \<Rightarrow> string + string" where
  "pct_decode [] = Inr []"
| "pct_decode (c # cs) =
     (if c = CHR ''%'' then
        (case cs of
           a # b # r \<Rightarrow>
             (case (hex_val a, hex_val b) of
                (Some x, Some y) \<Rightarrow>
                  (case pct_decode r of Inl e \<Rightarrow> Inl e | Inr t \<Rightarrow> Inr (char_of (16 * x + y) # t))
              | _ \<Rightarrow> Inl ''URIError: URI malformed'')
         | _ \<Rightarrow> Inl ''URIError: URI malformed'')
      else (case pct_decode cs of Inl e \<Rightarrow> Inl e | Inr t \<Rightarrow> Inr (c # t)))"

definition unreserved :: "char \<Rightarrow> bool" where
  "unreserved c =
     ((CHR ''a'' \<le> c \<and> c \<le> CHR ''z'') \<or> (CHR ''A'' \<le> c \<and> c \<le> CHR ''Z'')
      \<or> (CHR ''0'' \<le> c \<and> c \<le> CHR ''9'') \<or> elem c (''-_.!~*()'' @ [sq]))"

definition pct_encode :: "string \<Rightarrow> string" where
  "pct_encode s =
     concat (map (\<lambda>c. if unreserved c then [c]
                       else [CHR ''%'', ''0123456789ABCDEF'' ! (of_char c div 16),
                             ''0123456789ABCDEF'' ! (of_char c mod 16)]) s)"

text \<open>
  The text of a body, as UTF-8 bytes again: the UTF-8 decoder of the Encoding standard
  with \<open>U+FFFD\<close> (bytes \<open>EF BF BD\<close>) for each error. \<open>utf8_lead b\<close> is the step on
  a byte \<open>b\<close> when no sequence is open: what is emitted, the number of bytes still
  needed, and the bounds of the next byte. \<open>utf8_scan n pend lo hi\<close> has \<open>n\<close> bytes to
  come after the bytes \<open>pend\<close> (latest first); a byte outside the bounds ends the
  sequence with an error and is read again as a first byte.
\<close>

definition replacement :: string where
  "replacement = [CHR 0xEF, CHR 0xBF, CHR 0xBD]"

definition utf8_lead :: "char \<Rightarrow> string \<times> nat \<times> nat \<times> nat" where
  "utf8_lead b =
     (let n = (of_char b :: nat) in
      if n \<le> 0x7F then ([b], 0, 0x80, 0xBF)
      else if 0xC2 \<le> n \<and> n \<le> 0xDF then ([], 1, 0x80, 0xBF)
      else if 0xE0 \<le> n \<and> n \<le> 0xEF then
        ([], 2, if n = 0xE0 then 0xA0 else 0x80, if n = 0xED then 0x9F else 0xBF)
      else if 0xF0 \<le> n \<and> n \<le> 0xF4 then
        ([], 3, if n = 0xF0 then 0x90 else 0x80, if n = 0xF4 then 0x8F else 0xBF)
      else (replacement, 0, 0x80, 0xBF))"

fun utf8_scan :: "nat \<Rightarrow> string \<Rightarrow> nat \<Rightarrow> nat \<Rightarrow> string \<Rightarrow> string" where
  "utf8_scan n pend lo hi [] = (if n = 0 then [] else replacement)"
| "utf8_scan n pend lo hi (b # bs) =
     (if n \<noteq> 0 \<and> lo \<le> of_char b \<and> of_char b \<le> hi then
        (if n = 1 then rev (b # pend) @ utf8_scan 0 [] 0x80 0xBF bs
         else utf8_scan (n - 1) (b # pend) 0x80 0xBF bs)
      else
        (case utf8_lead b of
           (out, n', lo', hi') \<Rightarrow>
             (if n \<noteq> 0 then replacement else []) @ out @
             utf8_scan n' (if n' = 0 then [] else [b]) lo' hi' bs))"

definition utf8_text :: "string \<Rightarrow> string" where
  "utf8_text bytes =
     utf8_scan 0 [] 0x80 0xBF
       (if take 3 bytes = [CHR 0xEF, CHR 0xBB, CHR 0xBF] then drop 3 bytes else bytes)"

definition simple_platform :: "(proxy_request \<Rightarrow> string + response) \<Rightarrow> platform" where
  "simple_platform f =
     \<lparr>parseURL = simple_parseURL, resolveURL = simple_resolveURL,
      decodeURIComponent = pct_decode, encodeURIComponent = pct_encode, fetch = f,
      decodeText = utf8_text,
      statusError = (\<lambda>st. ''RangeError: The status provided is outside the range [200, 599]''),
      nullBodyError = ''TypeError: Response with null body status cannot have body''\<rparr>"

definition https_url :: "string \<Rightarrow> string \<Rightarrow> string \<Rightarrow> string \<Rightarrow> url" where
  "https_url h p q f =
     \<lparr>protocol = ''https:'', username = [], password = [], host = h, pathname = p,
      search = q, hash = f\<rparr>"

text \<open>A \<^verbatim>\<open>GET\<close> of \<^verbatim>\<open>https://proxy.example\<close> with path \<open>p\<close> and query \<open>q\<close>.\<close>

definition get_request :: "string \<Rightarrow> string \<Rightarrow> request" where
  "get_request p q =
     \<lparr>req_method = ''GET'', req_url = https_url ''proxy.example'' p q [],
      req_headers = [], req_body = None\<rparr>"

text \<open>An upstream that answers every request with a 302 to \<open>loc\<close>.\<close>

definition redirect_response :: "string \<Rightarrow> response" where
  "redirect_response loc =
     \<lparr>status = 302, statusText = ''Found'', rs_headers = [(''location'', loc)], body = None\<rparr>"

definition redirect_to :: "string \<Rightarrow> proxy_request \<Rightarrow> string + response" where
  "redirect_to loc rq = Inr (redirect_response loc)"

definition login_upstream :: platform where
  "login_upstream = simple_platform (redirect_to ''/login'')"

definition evil_upstream :: platform where
  "evil_upstream = simple_platform (redirect_to ''https://evil.example/x'')"

definition cross_upstream :: platform where
  "cross_upstream = simple_platform (redirect_to ''https://api.steamcmd.net/v1/info?x=2#frag'')"

text \<open>An upstream that answers with an image, one that cannot be reached.\<close>

definition image_response :: response where
  "image_response =
     \<lparr>status = 200, statusText = ''OK'',
      rs_headers = [(''content-type'', ''image/png''), (''location'', ''/elsewhere'')],
      body = Some ''PNG''\<rparr>"

definition image_upstream :: platform where
  "image_upstream = simple_platform (\<lambda>rq. Inr image_response)"


text \<open>
  An upstream that answers every request with a 304 that has the content type
  \<^verbatim>\<open>text/html\<close>, a \<^verbatim>\<open>Location\<close> and no body.
\<close>

definition not_modified_response :: "string \<Rightarrow> response" where
  "not_modified_response loc =
     \<lparr>status = 304, statusText = ''Not Modified'',
      rs_headers = [(''content-type'', ''text/html''), (''location'', loc)], body = None\<rparr>"

definition not_modified_upstream :: "string \<Rightarrow> platform" where
  "not_modified_upstream loc = simple_platform (\<lambda>rq. Inr (not_modified_response loc))"

text \<open>A \<^verbatim>\<open>GET\<close> of path \<open>p\<close> with a \<^verbatim>\<open>Referer\<close> that is not a URL.\<close>

definition bad_referer_request :: "string \<Rightarrow> request" where
  "bad_referer_request p = (get_request p [])\<lparr>req_headers := [(''referer'', ''not a url'')]\<rparr>"

definition edge :: edge_context where
  "edge = \<lparr>ctx_ip = ''203.0.113.7''\<rparr>"

text \<open>A route table with a prefix that extends another one.\<close>

definition extra_config :: "(string \<times> string) list" where
  "extra_config =
     [(''/steam'', ''https://store.steampowered.com''),
      (''/steam/extra'', ''https://api.steamcmd.net'')]"

section \<open>The route resolver selects the longest matching prefix\<close>

lemma prefix_le: "prefix (xs::string) ys \<Longrightarrow> xs \<le> ys"
  by (induction xs arbitrary: ys) (auto simp: prefix_def)

lemma route_matches_prefix: "route_matches path p \<Longrightarrow> prefix p path"
  by (auto simp: route_matches_def startsWith_def prefix_def)

lemma scan_prefixes_first:
  "p \<in> set ps \<Longrightarrow> route_matches path p \<Longrightarrow> sorted_wrt (\<lambda>a b. b \<le> a) ps \<Longrightarrow>
   \<exists>q. scan_prefixes cfg ps path = (map_of cfg q, Some q) \<and> q \<in> set ps
       \<and> route_matches path q \<and> p \<le> q"
proof (induction ps)
  case Nil
  then show ?case by simp
next
  case (Cons a ps)
  show ?case
  proof (cases "route_matches path a")
    case True
    with Cons.prems show ?thesis by auto
  next
    case False
    with Cons.prems have "p \<in> set ps" by auto
    with Cons False show ?thesis by auto
  qed
qed

lemma sorted_prefixes_desc: "sorted_wrt (\<lambda>a b. b \<le> a) (sorted_prefixes cfg)"
  by (simp add: sorted_prefixes_def sorted_wrt_rev)

lemma set_sorted_prefixes: "set (sorted_prefixes cfg) = fst ` set cfg"
  by (simp add: sorted_prefixes_def)

text \<open>
  Two prefixes that match the same path are prefixes of each other, and a string is
  below each of its extensions in the order of the sort.
\<close>

lemma matching_longer:
  assumes "route_matches path p" "route_matches path q" "p \<le> q"
  shows "length p \<le> length q"
proof (rule ccontr)
  assume "\<not> length p \<le> length q"
  then have len: "length q < length p" by simp
  from assms have "prefix p path" "prefix q path" by (auto dest: route_matches_prefix)
  then have "prefix p q \<or> prefix q p" by (rule prefix_same_cases)
  with len have "prefix q p" by (auto dest: prefix_length_le)
  then have "q \<le> p" by (rule prefix_le)
  with assms(3) have "p = q" by simp
  with len show False by simp
qed

text \<open>
  Claim C2. For every path and every two configured prefixes that both match it (the path
  is the prefix, or starts with the prefix and a slash), the scan of the keys in reverse
  sorted order stops at a configured prefix that matches and is at least as long as
  both: the shorter of two matching prefixes is never preferred to the longer. The
  upstream that goes with the selected prefix is its entry in the table.
\<close>

theorem longest_prefix_wins:
  assumes "p1 \<in> fst ` set cfg" and "p2 \<in> fst ` set cfg"
    and "route_matches path p1" and "route_matches path p2"
  shows "\<exists>q. find_route cfg path = (map_of cfg q, Some q) \<and> q \<in> fst ` set cfg
            \<and> route_matches path q \<and> length p1 \<le> length q \<and> length p2 \<le> length q"
proof -
  from assms(1,3) obtain q where q: "find_route cfg path = (map_of cfg q, Some q)"
      "q \<in> fst ` set cfg" "route_matches path q"
    using scan_prefixes_first[of p1 "sorted_prefixes cfg" path cfg]
    by (auto simp: find_route_def set_sorted_prefixes sorted_prefixes_desc)
  have "p \<le> q" if "p \<in> fst ` set cfg" "route_matches path p" for p
    using scan_prefixes_first[of p "sorted_prefixes cfg" path cfg] that q(1)
    by (auto simp: find_route_def set_sorted_prefixes sorted_prefixes_desc)
  with assms q(3) have "length p1 \<le> length q" "length p2 \<le> length q"
    by (auto intro: matching_longer)
  with q show ?thesis by blast
qed

text \<open>
  With \<^verbatim>\<open>/steam\<close> and \<^verbatim>\<open>/steam/extra\<close> both configured, the path
  \<^verbatim>\<open>/steam/extra/x\<close> goes to the upstream of \<^verbatim>\<open>/steam/extra\<close>.
\<close>

theorem longest_prefix_wins_witness:
  "''/steam'' \<in> fst ` set extra_config \<and> ''/steam/extra'' \<in> fst ` set extra_config
   \<and> route_matches ''/steam/extra/x'' ''/steam''
   \<and> route_matches ''/steam/extra/x'' ''/steam/extra''
   \<and> find_route extra_config ''/steam/extra/x''
       = (Some ''https://api.steamcmd.net'', Some ''/steam/extra'')"
proof -
  have h: "''/steam'' \<in> fst ` set extra_config" "''/steam/extra'' \<in> fst ` set extra_config"
    "route_matches ''/steam/extra/x'' ''/steam''"
    "route_matches ''/steam/extra/x'' ''/steam/extra''"
    by (simp_all add: extra_config_def route_matches_def startsWith_def)
  from longest_prefix_wins[OF h] obtain q where
    q: "find_route extra_config ''/steam/extra/x'' = (map_of extra_config q, Some q)"
       "q \<in> fst ` set extra_config" "length ''/steam/extra'' \<le> length q"
    by blast
  from q(2,3) have "q = ''/steam/extra''" by (auto simp: extra_config_def)
  with q(1) h show ?thesis by (simp add: extra_config_def)
qed

section \<open>The handler, stage by stage\<close>

lemma hget_hset: "hget (hset n v hs) m = (if lower m = lower n then Some v else hget hs m)"
  by (simp add: hget_def hset_def update_conv')

lemma hget_hdelete: "hget (hdelete n hs) m = (if lower m = lower n then None else hget hs m)"
  by (simp add: hget_def hdelete_def delete_conv')

lemma lower_names:
  "lower ''Access-Control-Allow-Origin'' = ''access-control-allow-origin''"
  "lower ''Access-Control-Allow-Methods'' = ''access-control-allow-methods''"
  "lower ''Access-Control-Allow-Headers'' = ''access-control-allow-headers''"
  "lower ''Access-Control-Max-Age'' = ''access-control-max-age''"
  "lower ''Cache-Control'' = ''cache-control''"
  "lower ''Content-Type'' = ''content-type''"
  "lower ''Content-Security-Policy'' = ''content-security-policy''"
  "lower ''Content-Security-Policy-Report-Only'' = ''content-security-policy-report-only''"
  "lower ''X-Frame-Options'' = ''x-frame-options''"
  "lower ''X-Content-Type-Options'' = ''x-content-type-options''"
  "lower ''Location'' = ''location''"
  "lower ''location'' = ''location''"
  "lower ''Expires'' = ''expires''"
  "lower ''Pragma'' = ''pragma''"
  "lower ''Host'' = ''host''"
  "lower ''X-Forwarded-For'' = ''x-forwarded-for''"
  "lower ''X-Forwarded-Host'' = ''x-forwarded-host''"
  "lower ''X-Forwarded-Proto'' = ''x-forwarded-proto''"
  "lower ''accept-encoding'' = ''accept-encoding''"
  "lower ''referer'' = ''referer''"
  "lower ''content-type'' = ''content-type''"
  "lower ''x-nf-client-connection-ip'' = ''x-nf-client-connection-ip''"
  by code_simp+

lemma preflight_headers:
  "preflight_response =
     \<lparr>status = 204, statusText = [],
      rs_headers =
        [(''access-control-allow-origin'', ''*''),
         (''access-control-allow-methods'', ''GET, POST, PUT, DELETE, PATCH, OPTIONS''),
         (''access-control-allow-headers'',
          ''Content-Type, Authorization, X-Requested-With, Accept, Origin, Range''),
         (''access-control-max-age'', ''86400''),
         (''cache-control'', ''public, max-age=86400'')],
      body = None\<rparr>"
  by (simp add: preflight_response_def mk_headers_def hset_def lower_names)

lemma plain_text_headers:
  "plain_text st msg =
     \<lparr>status = st, statusText = [],
      rs_headers = [(''access-control-allow-origin'', ''*''),
                    (''content-type'', ''text/plain;charset=UTF-8'')],
      body = Some msg\<rparr>"
  by (simp add: plain_text_def mk_headers_def hset_def lower_names)


lemma pr_url_build [simp]: "pr_url (build_proxy_request pf request ctx t) = t"
  by (simp add: build_proxy_request_def Let_def)

lemma handler_options:
  "req_method request = ''OPTIONS'' \<Longrightarrow> handler pf request ctx = ([], Response preflight_response)"
  by (simp add: handler_def)

lemma handler_generic:
  "req_method request \<noteq> ''OPTIONS'' \<Longrightarrow> startsWith (pathname (req_url request)) ''/proxy/'' \<Longrightarrow>
   handler pf request ctx = generic_proxy pf request ctx"
  by (simp add: handler_def)

lemma handler_prefix:
  "req_method request \<noteq> ''OPTIONS'' \<Longrightarrow> \<not> startsWith (pathname (req_url request)) ''/proxy/'' \<Longrightarrow>
   route_of PROXY_CONFIG (pathname (req_url request)) = Some (b, p) \<Longrightarrow>
   handler pf request ctx = prefix_proxy pf request ctx b p"
  by (simp add: handler_def)

lemma handler_cases:
  "handler pf request ctx = ([], Response preflight_response)
   \<or> handler pf request ctx = generic_proxy pf request ctx
   \<or> (\<exists>b p. route_of PROXY_CONFIG (pathname (req_url request)) = Some (b, p)
        \<and> handler pf request ctx = prefix_proxy pf request ctx b p)
   \<or> handler pf request ctx = ([], NoResponse)"
  by (auto simp: handler_def split: option.splits)

text \<open>The generic path, stage by stage.\<close>

lemma generic_proxy_bad_target:
  "generic_target_string pf (pathname (req_url request)) = Inl e \<Longrightarrow>
   generic_proxy pf request ctx = ([], Response (generic_failed e))"
  by (simp add: generic_proxy_def generic_try_def)

lemma generic_proxy_bad_url:
  "generic_target_string pf (pathname (req_url request)) = Inr s \<Longrightarrow> parseURL pf s = Inl e \<Longrightarrow>
   generic_proxy pf request ctx = ([], Response (generic_failed e))"
  by (simp add: generic_proxy_def generic_try_def)

lemma generic_proxy_forbidden:
  "generic_target_string pf (pathname (req_url request)) = Inr s \<Longrightarrow> parseURL pf s = Inr t \<Longrightarrow>
   host t \<notin> ALLOWED_DOMAINS \<Longrightarrow>
   generic_proxy pf request ctx = ([], Response (generic_forbidden (host t)))"
  by (simp add: generic_proxy_def generic_try_def)

lemma generic_proxy_fetch_failed:
  "generic_target_string pf (pathname (req_url request)) = Inr s \<Longrightarrow> parseURL pf s = Inr t \<Longrightarrow>
   host t \<in> ALLOWED_DOMAINS \<Longrightarrow>
   fetch pf (build_proxy_request pf request ctx (inherit_query (req_url request) s t)) = Inl e \<Longrightarrow>
   generic_proxy pf request ctx =
     ([build_proxy_request pf request ctx (inherit_query (req_url request) s t)],
      Response (generic_failed e))"
  by (simp add: generic_proxy_def generic_try_def inherit_query_def Let_def)

lemma generic_proxy_fetched:
  "generic_target_string pf (pathname (req_url request)) = Inr s \<Longrightarrow> parseURL pf s = Inr t \<Longrightarrow>
   host t \<in> ALLOWED_DOMAINS \<Longrightarrow>
   fetch pf (build_proxy_request pf request ctx (inherit_query (req_url request) s t)) = Inr response \<Longrightarrow>
   generic_proxy pf request ctx =
     ([build_proxy_request pf request ctx (inherit_query (req_url request) s t)],
      Response (case generic_respond pf (req_url request) (inherit_query (req_url request) s t) response of
                  Inl e \<Rightarrow> generic_failed e | Inr r \<Rightarrow> r))"
  by (simp add: generic_proxy_def generic_try_def inherit_query_def Let_def split: sum.splits)

text \<open>The prefix path, stage by stage.\<close>

lemma prefix_proxy_uncaught:
  "parseURL pf (strip_trailing_slash b @ drop (length p) (pathname (req_url request))) = Inl e \<Longrightarrow>
   prefix_proxy pf request ctx b p = ([], Uncaught e)"
  by (simp add: prefix_proxy_def Let_def)

lemma prefix_proxy_forbidden:
  "parseURL pf (strip_trailing_slash b @ drop (length p) (pathname (req_url request))) = Inr t \<Longrightarrow>
   host t \<notin> ALLOWED_DOMAINS \<Longrightarrow>
   prefix_proxy pf request ctx b p = ([], Response (prefix_forbidden (host t)))"
  by (simp add: prefix_proxy_def Let_def)

lemma prefix_proxy_fetch_failed:
  "parseURL pf (strip_trailing_slash b @ drop (length p) (pathname (req_url request))) = Inr t \<Longrightarrow>
   host t \<in> ALLOWED_DOMAINS \<Longrightarrow>
   fetch pf (build_proxy_request pf request ctx (t\<lparr>search := search (req_url request)\<rparr>)) = Inl e \<Longrightarrow>
   prefix_proxy pf request ctx b p =
     ([build_proxy_request pf request ctx (t\<lparr>search := search (req_url request)\<rparr>)],
      Response prefix_failed)"
  by (simp add: prefix_proxy_def prefix_try_def Let_def)

lemma prefix_proxy_fetched:
  "parseURL pf (strip_trailing_slash b @ drop (length p) (pathname (req_url request))) = Inr t \<Longrightarrow>
   host t \<in> ALLOWED_DOMAINS \<Longrightarrow>
   fetch pf (build_proxy_request pf request ctx (t\<lparr>search := search (req_url request)\<rparr>)) = Inr response \<Longrightarrow>
   prefix_proxy pf request ctx b p =
     ([build_proxy_request pf request ctx (t\<lparr>search := search (req_url request)\<rparr>)],
      Response (case prefix_respond pf (req_url request) p (t\<lparr>search := search (req_url request)\<rparr>) response of
                  Inl e \<Rightarrow> prefix_failed | Inr r \<Rightarrow> r))"
  by (simp add: prefix_proxy_def prefix_try_def Let_def split: sum.splits)

lemma host_inherit_query [simp]: "host (inherit_query url s t) = host t"
  by (simp add: inherit_query_def)

lemma generic_fetches_allowed:
  "rq \<in> set (fst (generic_proxy pf request ctx)) \<Longrightarrow> host (pr_url rq) \<in> ALLOWED_DOMAINS"
  by (auto simp: generic_proxy_def generic_try_def Let_def split: sum.splits prod.splits if_splits)

lemma prefix_fetches_allowed:
  "rq \<in> set (fst (prefix_proxy pf request ctx b p)) \<Longrightarrow> host (pr_url rq) \<in> ALLOWED_DOMAINS"
  by (auto simp: prefix_proxy_def prefix_try_def Let_def split: sum.splits prod.splits if_splits)

lemma fetches_allowed:
  "rq \<in> set (fst (handler pf request ctx)) \<Longrightarrow> host (pr_url rq) \<in> ALLOWED_DOMAINS"
  using handler_cases[of pf request ctx]
  by (auto dest: generic_fetches_allowed prefix_fetches_allowed)


lemma hget_normalize_other:
  "lower n \<notin> {''access-control-allow-origin'', ''access-control-allow-methods'',
                ''access-control-allow-headers'', ''content-security-policy'',
                ''content-security-policy-report-only'', ''x-frame-options'',
                ''x-content-type-options''} \<Longrightarrow>
   hget (normalize_headers hs) n = hget hs n"
  by (simp add: normalize_headers_def hget_hset hget_hdelete lower_names)


lemma hget_cache_other:
  "lower n \<notin> {''cache-control'', ''pragma'', ''expires''} \<Longrightarrow>
   hget (cache_headers ct hs) n = hget hs n"
  by (simp add: cache_headers_def hget_hset lower_names)


lemma plain_text_status [simp]: "status (plain_text st msg) = st"
  by (simp add: plain_text_def)


text \<open>What \<^verbatim>\<open>new Response\<close> does with a fetched response.\<close>

lemma new_Response_Inr:
  "200 \<le> st \<Longrightarrow> st \<le> 599 \<Longrightarrow> b = None \<or> \<not> null_body_status st \<Longrightarrow>
   new_Response pf b st stt hs = Inr \<lparr>status = st, statusText = stt, rs_headers = hs, body = b\<rparr>"
  by (auto simp: new_Response_def)

lemma new_Response_range:
  "st < 200 \<or> 599 < st \<Longrightarrow> new_Response pf b st stt hs = Inl (statusError pf st)"
  by (auto simp: new_Response_def)

lemma new_Response_null_body:
  "200 \<le> st \<Longrightarrow> st \<le> 599 \<Longrightarrow> b \<noteq> None \<Longrightarrow> null_body_status st \<Longrightarrow>
   new_Response pf b st stt hs = Inl (nullBodyError pf)"
  by (auto simp: new_Response_def)

lemma new_Response_cases:
  "new_Response pf b st stt hs = Inr \<lparr>status = st, statusText = stt, rs_headers = hs, body = b\<rparr>
   \<or> (\<exists>e. new_Response pf b st stt hs = Inl e)"
  by (auto simp: new_Response_def)

lemma null_body_redirect:
  "300 \<le> st \<Longrightarrow> st < 400 \<Longrightarrow> null_body_status st = (st = 304)"
  by (auto simp: null_body_status_def)

lemma prefix_body_None:
  "(prefix_body pf url p t response = None)
     = (\<not> needsRewrite (content_type response) \<and> body response = None)"
  by (simp add: prefix_body_def Let_def)

text \<open>What the redirect steps return.\<close>

lemma generic_respond_cases:
  "generic_respond pf url t response = res \<Longrightarrow>
   (redirect_location response = None \<and>
      res = Inr \<lparr>status = status response, statusText = statusText response,
                 rs_headers = normalize_headers (rs_headers response), body = body response\<rparr>)
   \<or> (\<exists>e. res = Inl e)
   \<or> (\<exists>loc u. redirect_location response = Some loc \<and> resolveURL pf loc t = Inr u
        \<and> host u \<notin> ALLOWED_DOMAINS \<and> res = Inr (generic_redirect_forbidden (host u)))
   \<or> (\<exists>loc u. redirect_location response = Some loc \<and> resolveURL pf loc t = Inr u
        \<and> host u \<in> ALLOWED_DOMAINS
        \<and> res = Inr \<lparr>status = status response, statusText = statusText response,
                     rs_headers = hset ''Location''
                        (origin url @ ''/proxy/'' @ encodeURIComponent pf (href u))
                        (normalize_headers (rs_headers response)),
                     body = body response\<rparr>)"
  using new_Response_cases[of pf "body response" "status response" "statusText response"
          "rs_headers response"]
  by (auto simp: generic_respond_def generic_redirect_def split: option.splits sum.splits if_splits)

lemma prefix_respond_cases:
  "prefix_respond pf url p t response = res \<Longrightarrow>
   (redirect_location response = None \<and>
      res = Inr \<lparr>status = status response, statusText = statusText response,
                 rs_headers = prefix_headers response, body = prefix_body pf url p t response\<rparr>)
   \<or> (\<exists>e. res = Inl e)
   \<or> (\<exists>loc u. redirect_location response = Some loc \<and> resolveURL pf loc t = Inr u
        \<and> host u \<notin> ALLOWED_DOMAINS \<and> res = Inr (prefix_redirect_forbidden (host u)))
   \<or> (\<exists>loc u. redirect_location response = Some loc \<and> resolveURL pf loc t = Inr u
        \<and> host u \<in> ALLOWED_DOMAINS
        \<and> res = Inr \<lparr>status = status response, statusText = statusText response,
                     rs_headers = hset ''Location'' (origin url @ p @ pathname u @ search u)
                        (prefix_headers response),
                     body = prefix_body pf url p t response\<rparr>)"
  using new_Response_cases[of pf "prefix_body pf url p t response" "status response"
          "statusText response" "rs_headers response"]
  by (auto simp: prefix_respond_def prefix_redirect_def prefix_headers_def
           split: option.splits sum.splits if_splits)


lemma hget_prefix_headers_location:
  "hget (prefix_headers response) ''location'' = hget (rs_headers response) ''location''"
  by (simp add: prefix_headers_def hget_cache_other hget_normalize_other lower_names)

lemma scan_prefixes_Some:
  "scan_prefixes cfg ps path = (Some b, Some p) \<Longrightarrow>
   p \<in> set ps \<and> route_matches path p \<and> map_of cfg p = Some b"
  by (induction ps) (auto split: if_splits)

lemma route_of_Some:
  "route_of cfg path = Some (b, p) \<Longrightarrow>
   (p, b) \<in> set cfg \<and> route_matches path p \<and> b \<noteq> [] \<and> p \<noteq> []"
  by (auto simp: route_of_def find_route_def sorted_prefixes_def
           split: prod.splits option.splits if_splits
           dest!: scan_prefixes_Some dest: map_of_SomeD)

lemma error_status [simp]:
  "status (generic_failed e) = 502" "status prefix_failed = 502"
  "status (generic_forbidden h) = 403" "status (prefix_forbidden h) = 403"
  "status (generic_redirect_forbidden h) = 403" "status (prefix_redirect_forbidden h) = 403"
  by (simp_all add: generic_failed_def prefix_failed_def generic_forbidden_def
        prefix_forbidden_def generic_redirect_forbidden_def prefix_redirect_forbidden_def)

lemma hget_Location: "hget hs ''Location'' = hget hs ''location''"
  by (simp add: hget_def lower_names)

lemma generic_redirect_safe:
  assumes "snd (generic_proxy pf request ctx) = Response r"
    and "300 \<le> status r" and "status r < 400"
    and "hget (rs_headers r) ''Location'' = Some l"
  shows "\<exists>rq loc u. rq \<in> set (fst (generic_proxy pf request ctx))
           \<and> resolveURL pf loc (pr_url rq) = Inr u \<and> host u \<in> ALLOWED_DOMAINS
           \<and> l = origin (req_url request) @ ''/proxy/'' @ encodeURIComponent pf (href u)"
proof (cases "generic_target_string pf (pathname (req_url request))")
  case (Inl e)
  with assms show ?thesis by (auto simp: generic_proxy_bad_target)
next
  case s: (Inr s)
  show ?thesis
  proof (cases "parseURL pf s")
    case (Inl e)
    with s assms show ?thesis by (auto simp: generic_proxy_bad_url)
  next
    case t: (Inr t)
    show ?thesis
    proof (cases "host t \<in> ALLOWED_DOMAINS")
      case False
      with s t assms show ?thesis by (auto simp: generic_proxy_forbidden)
    next
      case True
      let ?T = "inherit_query (req_url request) s t"
      let ?rq = "build_proxy_request pf request ctx ?T"
      show ?thesis
      proof (cases "fetch pf ?rq")
        case (Inl e)
        with s t True assms show ?thesis
          by (auto simp: generic_proxy_fetch_failed)
      next
        case (Inr response)
        note gp = generic_proxy_fetched[OF s t True Inr]
        from generic_respond_cases[of pf "req_url request" ?T response, OF refl]
        show ?thesis
        proof (elim disjE exE conjE)
          assume "redirect_location response = None"
            and res: "generic_respond pf (req_url request) ?T response =
              Inr \<lparr>status = status response, statusText = statusText response,
                   rs_headers = normalize_headers (rs_headers response), body = body response\<rparr>"
          with assms gp show ?thesis
            by (auto simp: redirect_location_def hget_normalize_other hget_Location lower_names split: if_splits)
        next
          fix e
          assume "generic_respond pf (req_url request) ?T response = Inl e"
          with assms gp show ?thesis by auto
        next
          fix loc u
          assume "generic_respond pf (req_url request) ?T response =
                    Inr (generic_redirect_forbidden (host u))"
          with assms gp show ?thesis by auto
        next
          fix loc u
          assume "redirect_location response = Some loc" "resolveURL pf loc ?T = Inr u"
            "host u \<in> ALLOWED_DOMAINS"
            and "generic_respond pf (req_url request) ?T response =
              Inr \<lparr>status = status response, statusText = statusText response,
                   rs_headers = hset ''Location''
                      (origin (req_url request) @ ''/proxy/'' @ encodeURIComponent pf (href u))
                      (normalize_headers (rs_headers response)),
                   body = body response\<rparr>"
          with assms gp show ?thesis
            by (auto simp: hget_hset intro!: exI[of _ ?rq] exI[of _ loc] exI[of _ u])
        qed
      qed
    qed
  qed
qed


lemma prefix_redirect_safe:
  assumes "snd (prefix_proxy pf request ctx b p) = Response r"
    and "300 \<le> status r" and "status r < 400"
    and "hget (rs_headers r) ''Location'' = Some l"
  shows "\<exists>rq loc u. rq \<in> set (fst (prefix_proxy pf request ctx b p))
           \<and> resolveURL pf loc (pr_url rq) = Inr u \<and> host u \<in> ALLOWED_DOMAINS
           \<and> l = origin (req_url request) @ p @ pathname u @ search u"
proof (cases "parseURL pf (strip_trailing_slash b @ drop (length p) (pathname (req_url request)))")
  case (Inl e)
  with assms show ?thesis by (auto simp: prefix_proxy_uncaught)
next
  case t: (Inr t)
  show ?thesis
  proof (cases "host t \<in> ALLOWED_DOMAINS")
    case False
    with t assms show ?thesis by (auto simp: prefix_proxy_forbidden)
  next
    case True
    let ?T = "t\<lparr>search := search (req_url request)\<rparr>"
    let ?rq = "build_proxy_request pf request ctx ?T"
    show ?thesis
    proof (cases "fetch pf ?rq")
      case (Inl e)
      with t True assms show ?thesis by (auto simp: prefix_proxy_fetch_failed)
    next
      case (Inr response)
      note pp = prefix_proxy_fetched[OF t True Inr]
      from prefix_respond_cases[of pf "req_url request" p ?T response, OF refl]
      show ?thesis
      proof (elim disjE exE conjE)
        assume "redirect_location response = None"
          and "prefix_respond pf (req_url request) p ?T response =
            Inr \<lparr>status = status response, statusText = statusText response,
                 rs_headers = prefix_headers response,
                 body = prefix_body pf (req_url request) p ?T response\<rparr>"
        with assms pp show ?thesis
          by (auto simp: redirect_location_def hget_prefix_headers_location hget_Location
                   split: if_splits)
      next
        fix e
        assume "prefix_respond pf (req_url request) p ?T response = Inl e"
        with assms pp show ?thesis by auto
      next
        fix loc u
        assume "prefix_respond pf (req_url request) p ?T response =
                  Inr (prefix_redirect_forbidden (host u))"
        with assms pp show ?thesis by auto
      next
        fix loc u
        assume "redirect_location response = Some loc" "resolveURL pf loc ?T = Inr u"
          "host u \<in> ALLOWED_DOMAINS"
          and "prefix_respond pf (req_url request) p ?T response =
            Inr \<lparr>status = status response, statusText = statusText response,
                 rs_headers = hset ''Location''
                    (origin (req_url request) @ p @ pathname u @ search u)
                    (prefix_headers response),
                 body = prefix_body pf (req_url request) p ?T response\<rparr>"
        with assms pp show ?thesis
          by (auto simp: hget_hset intro!: exI[of _ ?rq] exI[of _ loc] exI[of _ u])
      qed
    qed
  qed
qed

lemma preflight_status [simp]: "status preflight_response = 204"
  by (simp add: preflight_response_def)

lemma redirect_safe:
  assumes "snd (handler pf request ctx) = Response r"
    and "300 \<le> status r" and "status r < 400"
    and "hget (rs_headers r) ''Location'' = Some l"
  shows "\<exists>rq loc u. rq \<in> set (fst (handler pf request ctx))
           \<and> resolveURL pf loc (pr_url rq) = Inr u \<and> host u \<in> ALLOWED_DOMAINS
           \<and> (l = origin (req_url request) @ ''/proxy/'' @ encodeURIComponent pf (href u)
                \<or> (\<exists>p \<in> fst ` set PROXY_CONFIG.
                      l = origin (req_url request) @ p @ pathname u @ search u))"
  using handler_cases[of pf request ctx]
proof (elim disjE exE conjE)
  assume "handler pf request ctx = ([], Response preflight_response)"
  with assms show ?thesis by auto
next
  assume h: "handler pf request ctx = generic_proxy pf request ctx"
  with generic_redirect_safe[of pf request ctx r l] assms show ?thesis by auto
next
  fix b p
  assume r: "route_of PROXY_CONFIG (pathname (req_url request)) = Some (b, p)"
    and h: "handler pf request ctx = prefix_proxy pf request ctx b p"
  from route_of_Some[OF r] have "p \<in> fst ` set PROXY_CONFIG" by force
  with prefix_redirect_safe[of pf request ctx b p r l] assms h show ?thesis by auto
next
  assume "handler pf request ctx = ([], NoResponse)"
  with assms show ?thesis by auto
qed

text \<open>
  Claim C1. Every request the handler hands to \<^verbatim>\<open>fetch\<close> goes to a host of the
  allow-list. On the generic path and on the prefix path, a target whose host is not in
  the list is answered with a 403 and nothing is fetched. A response with a status in
  \<open>[300, 400)\<close> that the handler returns with a \<^verbatim>\<open>Location\<close> has it rewritten to the
  proxy's own origin, from a redirect target whose host is in the list.
\<close>

theorem only_allowed_hosts:
  "(\<forall>rq \<in> set (fst (handler pf request ctx)). host (pr_url rq) \<in> ALLOWED_DOMAINS)
   \<and> (req_method request \<noteq> ''OPTIONS'' \<longrightarrow> startsWith (pathname (req_url request)) ''/proxy/'' \<longrightarrow>
      generic_target_string pf (pathname (req_url request)) = Inr s \<longrightarrow>
      parseURL pf s = Inr t \<longrightarrow> host t \<notin> ALLOWED_DOMAINS \<longrightarrow>
      handler pf request ctx = ([], Response (generic_forbidden (host t)))
      \<and> status (generic_forbidden (host t)) = 403)
   \<and> (req_method request \<noteq> ''OPTIONS'' \<longrightarrow> \<not> startsWith (pathname (req_url request)) ''/proxy/'' \<longrightarrow>
      route_of PROXY_CONFIG (pathname (req_url request)) = Some (b, p) \<longrightarrow>
      parseURL pf (strip_trailing_slash b @ drop (length p) (pathname (req_url request))) = Inr t' \<longrightarrow>
      host t' \<notin> ALLOWED_DOMAINS \<longrightarrow>
      handler pf request ctx = ([], Response (prefix_forbidden (host t')))
      \<and> status (prefix_forbidden (host t')) = 403)
   \<and> (\<forall>r l. snd (handler pf request ctx) = Response r \<longrightarrow> 300 \<le> status r \<longrightarrow> status r < 400 \<longrightarrow>
        hget (rs_headers r) ''Location'' = Some l \<longrightarrow>
        (\<exists>rq loc u. rq \<in> set (fst (handler pf request ctx))
           \<and> resolveURL pf loc (pr_url rq) = Inr u \<and> host u \<in> ALLOWED_DOMAINS
           \<and> (l = origin (req_url request) @ ''/proxy/'' @ encodeURIComponent pf (href u)
                \<or> (\<exists>p' \<in> fst ` set PROXY_CONFIG.
                      l = origin (req_url request) @ p' @ pathname u @ search u))))"
proof (intro conjI ballI impI allI)
  fix rq assume "rq \<in> set (fst (handler pf request ctx))"
  then show "host (pr_url rq) \<in> ALLOWED_DOMAINS" by (rule fetches_allowed)
next
  assume "req_method request \<noteq> ''OPTIONS''" "startsWith (pathname (req_url request)) ''/proxy/''"
    "generic_target_string pf (pathname (req_url request)) = Inr s" "parseURL pf s = Inr t"
    "host t \<notin> ALLOWED_DOMAINS"
  then show "handler pf request ctx = ([], Response (generic_forbidden (host t)))"
    by (simp add: handler_generic generic_proxy_forbidden)
next
  show "status (generic_forbidden (host t)) = 403" by simp
next
  assume "req_method request \<noteq> ''OPTIONS''" "\<not> startsWith (pathname (req_url request)) ''/proxy/''"
    "route_of PROXY_CONFIG (pathname (req_url request)) = Some (b, p)"
    "parseURL pf (strip_trailing_slash b @ drop (length p) (pathname (req_url request))) = Inr t'"
    "host t' \<notin> ALLOWED_DOMAINS"
  then show "handler pf request ctx = ([], Response (prefix_forbidden (host t')))"
    by (simp add: handler_prefix prefix_proxy_forbidden)
next
  show "status (prefix_forbidden (host t')) = 403" by simp
next
  fix r l
  assume "snd (handler pf request ctx) = Response r" "300 \<le> status r" "status r < 400"
    "hget (rs_headers r) ''Location'' = Some l"
  then show "\<exists>rq loc u. rq \<in> set (fst (handler pf request ctx))
           \<and> resolveURL pf loc (pr_url rq) = Inr u \<and> host u \<in> ALLOWED_DOMAINS
           \<and> (l = origin (req_url request) @ ''/proxy/'' @ encodeURIComponent pf (href u)
                \<or> (\<exists>p' \<in> fst ` set PROXY_CONFIG.
                      l = origin (req_url request) @ p' @ pathname u @ search u))"
    by (rule redirect_safe)
qed

text \<open>
  Claim C4. A request with the method \<^verbatim>\<open>OPTIONS\<close> is answered at once, with no fetch and
  whatever its path: status 204, no body, and exactly the five headers of lines 63-67.
\<close>

theorem options_preflight:
  assumes "req_method request = ''OPTIONS''"
  shows "handler pf request ctx =
    ([], Response
       \<lparr>status = 204, statusText = [],
        rs_headers =
          [(''access-control-allow-origin'', ''*''),
           (''access-control-allow-methods'', ''GET, POST, PUT, DELETE, PATCH, OPTIONS''),
           (''access-control-allow-headers'',
            ''Content-Type, Authorization, X-Requested-With, Accept, Origin, Range''),
           (''access-control-max-age'', ''86400''),
           (''cache-control'', ''public, max-age=86400'')],
        body = None\<rparr>)"
  using assms by (simp add: handler_options preflight_headers)

text \<open>
  Claim C3. On the generic path the URL that is fetched takes the query of the inbound URL
  only when that query is not empty and the target string has no question mark;
  otherwise it keeps the query of the parsed target. On the prefix path the URL that is
  fetched always has the query of the inbound URL.
\<close>

theorem query_string_asymmetry:
  "(req_method request \<noteq> ''OPTIONS'' \<longrightarrow> startsWith (pathname (req_url request)) ''/proxy/'' \<longrightarrow>
      generic_target_string pf (pathname (req_url request)) = Inr s \<longrightarrow>
      parseURL pf s = Inr t \<longrightarrow> host t \<in> ALLOWED_DOMAINS \<longrightarrow>
      map pr_url (fst (handler pf request ctx)) =
        [if search (req_url request) \<noteq> [] \<and> \<not> str_includes s ''?''
         then t\<lparr>search := search (req_url request)\<rparr> else t])
   \<and> (req_method request \<noteq> ''OPTIONS'' \<longrightarrow> \<not> startsWith (pathname (req_url request)) ''/proxy/'' \<longrightarrow>
      route_of PROXY_CONFIG (pathname (req_url request)) = Some (b, p) \<longrightarrow>
      parseURL pf (strip_trailing_slash b @ drop (length p) (pathname (req_url request))) = Inr t' \<longrightarrow>
      host t' \<in> ALLOWED_DOMAINS \<longrightarrow>
      map pr_url (fst (handler pf request ctx)) = [t'\<lparr>search := search (req_url request)\<rparr>])"
proof (intro conjI impI)
  assume a: "req_method request \<noteq> ''OPTIONS''" "startsWith (pathname (req_url request)) ''/proxy/''"
    "generic_target_string pf (pathname (req_url request)) = Inr s" "parseURL pf s = Inr t"
    "host t \<in> ALLOWED_DOMAINS"
  let ?rq = "build_proxy_request pf request ctx (inherit_query (req_url request) s t)"
  have "fst (generic_proxy pf request ctx) = [?rq]"
    using generic_proxy_fetch_failed[OF a(3-5), of ctx] generic_proxy_fetched[OF a(3-5), of ctx]
    by (cases "fetch pf ?rq") auto
  with a show "map pr_url (fst (handler pf request ctx)) =
        [if search (req_url request) \<noteq> [] \<and> \<not> str_includes s ''?''
         then t\<lparr>search := search (req_url request)\<rparr> else t]"
    by (simp add: handler_generic inherit_query_def)
next
  assume a: "req_method request \<noteq> ''OPTIONS''" "\<not> startsWith (pathname (req_url request)) ''/proxy/''"
    "route_of PROXY_CONFIG (pathname (req_url request)) = Some (b, p)"
    "parseURL pf (strip_trailing_slash b @ drop (length p) (pathname (req_url request))) = Inr t'"
    "host t' \<in> ALLOWED_DOMAINS"
  let ?rq = "build_proxy_request pf request ctx (t'\<lparr>search := search (req_url request)\<rparr>)"
  have "fst (prefix_proxy pf request ctx b p) = [?rq]"
    using prefix_proxy_fetch_failed[OF a(4,5), of ctx] prefix_proxy_fetched[OF a(4,5), of ctx]
    by (cases "fetch pf ?rq") auto
  with a show "map pr_url (fst (handler pf request ctx)) = [t'\<lparr>search := search (req_url request)\<rparr>]"
    by (simp add: handler_prefix)
qed


lemma hget_redirect_forbidden:
  "hget (rs_headers (generic_redirect_forbidden h)) ''Location'' = None"
  "hget (rs_headers (prefix_redirect_forbidden h)) ''Location'' = None"
  "hget (rs_headers (generic_redirect_forbidden h)) ''Content-Type'' = Some ''text/plain;charset=UTF-8''"
  "hget (rs_headers (prefix_redirect_forbidden h)) ''Content-Type'' = Some ''text/plain;charset=UTF-8''"
  by (simp_all add: generic_redirect_forbidden_def prefix_redirect_forbidden_def
        plain_text_headers hget_def lower_names)

lemma redirect_location_Some:
  "300 \<le> status response \<Longrightarrow> status response < 400 \<Longrightarrow>
   hget (rs_headers response) ''location'' = Some loc \<Longrightarrow> redirect_location response = Some loc"
  by (simp add: redirect_location_def)

lemma redirect_location_None:
  "\<not> (300 \<le> status response \<and> status response < 400) \<or> hget (rs_headers response) ''location'' = None
   \<Longrightarrow> redirect_location response = None"
  by (auto simp: redirect_location_def)

lemma redirect_location_status:
  "redirect_location response = Some loc \<Longrightarrow>
   300 \<le> status response \<and> status response < 400
   \<and> hget (rs_headers response) ''location'' = Some loc"
  by (auto simp: redirect_location_def split: if_splits)

lemma generic_respond_redirect:
  assumes "redirect_location response = Some loc" and "resolveURL pf loc t = Inr u"
    and "\<not> (status response = 304 \<and> body response \<noteq> None)"
  shows "generic_respond pf url t response =
     Inr (if host u \<in> ALLOWED_DOMAINS then
            \<lparr>status = status response, statusText = statusText response,
             rs_headers = hset ''Location''
                (origin url @ ''/proxy/'' @ encodeURIComponent pf (href u))
                (normalize_headers (rs_headers response)),
             body = body response\<rparr>
          else generic_redirect_forbidden (host u))"
proof -
  from redirect_location_status[OF assms(1)]
  have s: "300 \<le> status response" "status response < 400" by auto
  with assms(3) have "body response = None \<or> \<not> null_body_status (status response)"
    by (auto simp: null_body_redirect)
  with s have "new_Response pf (body response) (status response) (statusText response)
      (rs_headers response) =
    Inr \<lparr>status = status response, statusText = statusText response,
         rs_headers = rs_headers response, body = body response\<rparr>"
    by (intro new_Response_Inr) auto
  with assms(1,2) show ?thesis by (simp add: generic_respond_def generic_redirect_def)
qed

lemma generic_respond_thrown:
  "status response = 304 \<Longrightarrow> body response \<noteq> None \<Longrightarrow>
   generic_respond pf url t response = Inl (nullBodyError pf)"
  by (simp add: generic_respond_def new_Response_def null_body_status_def)

lemma generic_respond_plain:
  assumes "redirect_location response = None"
    and "200 \<le> status response" and "status response \<le> 599"
    and "body response = None \<or> \<not> null_body_status (status response)"
  shows "generic_respond pf url t response =
     Inr \<lparr>status = status response, statusText = statusText response,
          rs_headers = normalize_headers (rs_headers response), body = body response\<rparr>"
  using assms new_Response_Inr[OF assms(2-4), of pf "statusText response" "rs_headers response"]
  by (simp add: generic_respond_def generic_redirect_def)

lemma prefix_respond_redirect:
  assumes "redirect_location response = Some loc" and "resolveURL pf loc t = Inr u"
    and "\<not> (status response = 304
             \<and> (needsRewrite (content_type response) \<or> body response \<noteq> None))"
  shows "prefix_respond pf url p t response =
     Inr (if host u \<in> ALLOWED_DOMAINS then
            \<lparr>status = status response, statusText = statusText response,
             rs_headers = hset ''Location'' (origin url @ p @ pathname u @ search u)
                (prefix_headers response),
             body = prefix_body pf url p t response\<rparr>
          else prefix_redirect_forbidden (host u))"
proof -
  from redirect_location_status[OF assms(1)]
  have s: "300 \<le> status response" "status response < 400" by auto
  with assms(3) have "prefix_body pf url p t response = None
      \<or> \<not> null_body_status (status response)"
    by (auto simp: null_body_redirect prefix_body_None)
  with s have "new_Response pf (prefix_body pf url p t response) (status response)
      (statusText response) (rs_headers response) =
    Inr \<lparr>status = status response, statusText = statusText response,
         rs_headers = rs_headers response, body = prefix_body pf url p t response\<rparr>"
    by (intro new_Response_Inr) auto
  with assms(1,2) show ?thesis
    by (simp add: prefix_respond_def prefix_redirect_def prefix_headers_def)
qed

lemma prefix_respond_thrown:
  "status response = 304 \<Longrightarrow> needsRewrite (content_type response) \<or> body response \<noteq> None \<Longrightarrow>
   prefix_respond pf url p t response = Inl (nullBodyError pf)"
  by (simp add: prefix_respond_def new_Response_def null_body_status_def prefix_body_None)

lemma prefix_respond_plain:
  assumes "redirect_location response = None"
    and "200 \<le> status response" and "status response \<le> 599"
    and "(\<not> needsRewrite (content_type response) \<and> body response = None)
         \<or> \<not> null_body_status (status response)"
  shows "prefix_respond pf url p t response =
     Inr \<lparr>status = status response, statusText = statusText response,
          rs_headers = prefix_headers response, body = prefix_body pf url p t response\<rparr>"
proof -
  from assms(4) have "prefix_body pf url p t response = None
      \<or> \<not> null_body_status (status response)"
    by (auto simp: prefix_body_None)
  from new_Response_Inr[OF assms(2,3) this, of pf "statusText response" "rs_headers response"]
    assms(1)
  show ?thesis by (simp add: prefix_respond_def prefix_redirect_def prefix_headers_def)
qed

lemma generic_handled:
  assumes "req_method request \<noteq> ''OPTIONS''" "startsWith (pathname (req_url request)) ''/proxy/''"
    "generic_target_string pf (pathname (req_url request)) = Inr s"
    "parseURL pf s = Inr t" "host t \<in> ALLOWED_DOMAINS"
    "fetch pf (build_proxy_request pf request ctx (inherit_query (req_url request) s t)) = Inr response"
  shows "handler pf request ctx =
      ([build_proxy_request pf request ctx (inherit_query (req_url request) s t)],
       Response (case generic_respond pf (req_url request) (inherit_query (req_url request) s t)
                        response of
                  Inl e \<Rightarrow> generic_failed e | Inr r \<Rightarrow> r))"
  using assms by (simp add: handler_generic generic_proxy_fetched)

lemma prefix_handled:
  assumes "req_method request \<noteq> ''OPTIONS''" "\<not> startsWith (pathname (req_url request)) ''/proxy/''"
    "route_of PROXY_CONFIG (pathname (req_url request)) = Some (b, p)"
    "parseURL pf (strip_trailing_slash b @ drop (length p) (pathname (req_url request))) = Inr t"
    "host t \<in> ALLOWED_DOMAINS"
    "fetch pf (build_proxy_request pf request ctx (t\<lparr>search := search (req_url request)\<rparr>))
       = Inr response"
  shows "handler pf request ctx =
      ([build_proxy_request pf request ctx (t\<lparr>search := search (req_url request)\<rparr>)],
       Response (case prefix_respond pf (req_url request) p
                        (t\<lparr>search := search (req_url request)\<rparr>) response of
                  Inl e \<Rightarrow> prefix_failed | Inr r \<Rightarrow> r))"
  using assms by (simp add: handler_prefix prefix_proxy_fetched)

text \<open>
  Claim C5. When the upstream answers with a status in \<open>[300, 400)\<close> and a
  \<^verbatim>\<open>Location\<close> that resolves against the target URL, the handler does what the claim
  says whenever \<^verbatim>\<open>new Response\<close> accepts the response: a resolved host outside the
  allow-list gives a plain-text 403 without a \<^verbatim>\<open>Location\<close>; otherwise the response goes
  back with \<^verbatim>\<open>Location\<close> set to the proxy origin, then \<^verbatim>\<open>/proxy/\<close> and the encoded
  resolved URL on the generic path, or the matched prefix, the resolved path and the
  resolved query on the prefix path. With any other status, or without a
  \<^verbatim>\<open>Location\<close>, an accepted response goes back with the header as the upstream sent it.

  The claim fails where the constructor throws before the redirect is looked at. On the
  prefix path, a 304 whose content type is HTML, CSS or JavaScript has its (empty) text
  rewritten, line 426 hands that string to \<^verbatim>\<open>new Response\<close> with the status 304, which
  cannot have a body, and the \<^verbatim>\<open>catch\<close> of lines 480-489 answers 502: no 403 and no
  rewritten \<^verbatim>\<open>Location\<close>. The generic path (line 147) and the other branch of the prefix
  path (line 432) pass on the body of the upstream, which a 304 does not have.
\<close>

theorem redirect_processing:
  "(req_method request \<noteq> ''OPTIONS'' \<longrightarrow> startsWith (pathname (req_url request)) ''/proxy/'' \<longrightarrow>
      generic_target_string pf (pathname (req_url request)) = Inr s \<longrightarrow>
      parseURL pf s = Inr t \<longrightarrow> host t \<in> ALLOWED_DOMAINS \<longrightarrow>
      fetch pf (build_proxy_request pf request ctx (inherit_query (req_url request) s t)) = Inr response \<longrightarrow>
      (300 \<le> status response \<and> status response < 400
         \<and> hget (rs_headers response) ''location'' = Some loc \<longrightarrow>
       resolveURL pf loc (inherit_query (req_url request) s t) = Inr u \<longrightarrow>
         (status response = 304 \<and> body response \<noteq> None \<longrightarrow>
            snd (handler pf request ctx) = Response (generic_failed (nullBodyError pf)))
         \<and> (\<not> (status response = 304 \<and> body response \<noteq> None) \<longrightarrow>
            (host u \<notin> ALLOWED_DOMAINS \<longrightarrow>
               snd (handler pf request ctx) = Response (generic_redirect_forbidden (host u)))
            \<and> (host u \<in> ALLOWED_DOMAINS \<longrightarrow>
               snd (handler pf request ctx) =
                 Response \<lparr>status = status response, statusText = statusText response,
                    rs_headers = hset ''Location''
                       (origin (req_url request) @ ''/proxy/'' @ encodeURIComponent pf (href u))
                       (normalize_headers (rs_headers response)),
                    body = body response\<rparr>)))
      \<and> (\<not> (300 \<le> status response \<and> status response < 400)
           \<or> hget (rs_headers response) ''location'' = None \<longrightarrow>
         200 \<le> status response \<longrightarrow> status response \<le> 599 \<longrightarrow>
         body response = None \<or> \<not> null_body_status (status response) \<longrightarrow>
         snd (handler pf request ctx) =
           Response \<lparr>status = status response, statusText = statusText response,
              rs_headers = normalize_headers (rs_headers response), body = body response\<rparr>))
   \<and> (req_method request \<noteq> ''OPTIONS'' \<longrightarrow> \<not> startsWith (pathname (req_url request)) ''/proxy/'' \<longrightarrow>
      route_of PROXY_CONFIG (pathname (req_url request)) = Some (b, p) \<longrightarrow>
      parseURL pf (strip_trailing_slash b @ drop (length p) (pathname (req_url request))) = Inr t' \<longrightarrow>
      host t' \<in> ALLOWED_DOMAINS \<longrightarrow>
      fetch pf (build_proxy_request pf request ctx (t'\<lparr>search := search (req_url request)\<rparr>))
        = Inr response' \<longrightarrow>
      (300 \<le> status response' \<and> status response' < 400
         \<and> hget (rs_headers response') ''location'' = Some loc' \<longrightarrow>
       resolveURL pf loc' (t'\<lparr>search := search (req_url request)\<rparr>) = Inr u' \<longrightarrow>
         (status response' = 304
            \<and> (needsRewrite (content_type response') \<or> body response' \<noteq> None) \<longrightarrow>
            snd (handler pf request ctx) = Response prefix_failed)
         \<and> (\<not> (status response' = 304
                \<and> (needsRewrite (content_type response') \<or> body response' \<noteq> None)) \<longrightarrow>
            (host u' \<notin> ALLOWED_DOMAINS \<longrightarrow>
               snd (handler pf request ctx) = Response (prefix_redirect_forbidden (host u')))
            \<and> (host u' \<in> ALLOWED_DOMAINS \<longrightarrow>
               snd (handler pf request ctx) =
                 Response \<lparr>status = status response', statusText = statusText response',
                    rs_headers = hset ''Location''
                       (origin (req_url request) @ p @ pathname u' @ search u')
                       (prefix_headers response'),
                    body = prefix_body pf (req_url request) p
                             (t'\<lparr>search := search (req_url request)\<rparr>) response'\<rparr>)))
      \<and> (\<not> (300 \<le> status response' \<and> status response' < 400)
           \<or> hget (rs_headers response') ''location'' = None \<longrightarrow>
         200 \<le> status response' \<longrightarrow> status response' \<le> 599 \<longrightarrow>
         (\<not> needsRewrite (content_type response') \<and> body response' = None)
           \<or> \<not> null_body_status (status response') \<longrightarrow>
         snd (handler pf request ctx) =
           Response \<lparr>status = status response', statusText = statusText response',
              rs_headers = prefix_headers response',
              body = prefix_body pf (req_url request) p
                       (t'\<lparr>search := search (req_url request)\<rparr>) response'\<rparr>))
   \<and> status (generic_redirect_forbidden h) = 403
   \<and> status (prefix_redirect_forbidden h) = 403
   \<and> status (generic_failed e) = 502
   \<and> status prefix_failed = 502
   \<and> hget (rs_headers (generic_redirect_forbidden h)) ''Content-Type''
        = Some ''text/plain;charset=UTF-8''
   \<and> hget (rs_headers (prefix_redirect_forbidden h)) ''Content-Type''
        = Some ''text/plain;charset=UTF-8''
   \<and> hget (rs_headers (generic_redirect_forbidden h)) ''Location'' = None
   \<and> hget (rs_headers (prefix_redirect_forbidden h)) ''Location'' = None
   \<and> hget (rs_headers (generic_failed e)) ''Location'' = None
   \<and> hget (rs_headers prefix_failed) ''Location'' = None
   \<and> hget (prefix_headers response') ''Location'' = hget (rs_headers response') ''Location''
   \<and> hget (normalize_headers (rs_headers response)) ''Location''
        = hget (rs_headers response) ''Location''"
proof -
  have g: "snd (handler pf request ctx) =
      Response (case generic_respond pf (req_url request) (inherit_query (req_url request) s t) response of
                  Inl e \<Rightarrow> generic_failed e | Inr r \<Rightarrow> r)"
    if "req_method request \<noteq> ''OPTIONS''" "startsWith (pathname (req_url request)) ''/proxy/''"
      "generic_target_string pf (pathname (req_url request)) = Inr s"
      "parseURL pf s = Inr t" "host t \<in> ALLOWED_DOMAINS"
      "fetch pf (build_proxy_request pf request ctx (inherit_query (req_url request) s t)) = Inr response"
    using generic_handled[OF that] by simp
  have q: "snd (handler pf request ctx) =
      Response (case prefix_respond pf (req_url request) p
                       (t'\<lparr>search := search (req_url request)\<rparr>) response' of
                  Inl e \<Rightarrow> prefix_failed | Inr r \<Rightarrow> r)"
    if "req_method request \<noteq> ''OPTIONS''" "\<not> startsWith (pathname (req_url request)) ''/proxy/''"
      "route_of PROXY_CONFIG (pathname (req_url request)) = Some (b, p)"
      "parseURL pf (strip_trailing_slash b @ drop (length p) (pathname (req_url request))) = Inr t'"
      "host t' \<in> ALLOWED_DOMAINS"
      "fetch pf (build_proxy_request pf request ctx (t'\<lparr>search := search (req_url request)\<rparr>))
        = Inr response'"
    using prefix_handled[OF that] by simp
  show ?thesis
    apply (intro conjI impI)
    subgoal by (simp add: g generic_respond_thrown)
    subgoal by (simp add: g generic_respond_redirect redirect_location_Some)
    subgoal by (simp add: g generic_respond_redirect redirect_location_Some)
    subgoal by (simp add: g generic_respond_plain redirect_location_None)
    subgoal by (simp add: q prefix_respond_thrown)
    subgoal by (simp add: q prefix_respond_redirect redirect_location_Some)
    subgoal by (simp add: q prefix_respond_redirect redirect_location_Some)
    subgoal by (simp add: q prefix_respond_plain redirect_location_None)
    subgoal by simp
    subgoal by simp
    subgoal by simp
    subgoal by simp
    subgoal by (simp add: hget_redirect_forbidden)
    subgoal by (simp add: hget_redirect_forbidden)
    subgoal by (simp add: hget_redirect_forbidden)
    subgoal by (simp add: hget_redirect_forbidden)
    subgoal by (simp add: generic_failed_def plain_text_headers hget_def lower_names)
    subgoal by (simp add: prefix_failed_def plain_text_headers hget_def lower_names)
    subgoal by (simp add: hget_prefix_headers_location hget_Location)
    subgoal by (simp add: hget_normalize_other lower_names)
    done
qed

text \<open>
  Claim C10. On the prefix path, when the upstream redirects to a URL whose host is in the
  allow-list and \<^verbatim>\<open>new Response\<close> accepts the response, the \<^verbatim>\<open>Location\<close> returned is
  the proxy origin, the matched prefix, the path and the query of the resolved URL: the
  host and the fragment of the resolved URL have no part in it, so a redirect to another
  allow-listed host comes back under the prefix that was matched. The claim fails for a
  304 whose content type is HTML, CSS or JavaScript (or that has a body): line 426 throws
  and the handler answers 502, without a \<^verbatim>\<open>Location\<close>.
\<close>

theorem prefix_redirect_keeps_prefix:
  assumes "req_method request \<noteq> ''OPTIONS''"
    and "\<not> startsWith (pathname (req_url request)) ''/proxy/''"
    and "route_of PROXY_CONFIG (pathname (req_url request)) = Some (b, p)"
    and "parseURL pf (strip_trailing_slash b @ drop (length p) (pathname (req_url request))) = Inr t"
    and "host t \<in> ALLOWED_DOMAINS"
    and "fetch pf (build_proxy_request pf request ctx (t\<lparr>search := search (req_url request)\<rparr>))
           = Inr response"
    and "300 \<le> status response" and "status response < 400"
    and "hget (rs_headers response) ''location'' = Some loc"
    and "resolveURL pf loc (t\<lparr>search := search (req_url request)\<rparr>) = Inr u"
    and "host u \<in> ALLOWED_DOMAINS"
  shows "(\<not> (status response = 304
              \<and> (needsRewrite (content_type response) \<or> body response \<noteq> None)) \<longrightarrow>
            (\<exists>r. snd (handler pf request ctx) = Response r
               \<and> status r = status response
               \<and> hget (rs_headers r) ''Location''
                   = Some (origin (req_url request) @ p @ pathname u @ search u)))
       \<and> (status response = 304
            \<and> (needsRewrite (content_type response) \<or> body response \<noteq> None) \<longrightarrow>
            snd (handler pf request ctx) = Response prefix_failed
            \<and> status prefix_failed = 502
            \<and> hget (rs_headers prefix_failed) ''Location'' = None)"
proof -
  have "snd (handler pf request ctx) =
      Response (case prefix_respond pf (req_url request) p
                       (t\<lparr>search := search (req_url request)\<rparr>) response of
                  Inl e \<Rightarrow> prefix_failed | Inr r \<Rightarrow> r)"
    using prefix_handled[OF assms(1-6)] by simp
  moreover have "hget (rs_headers prefix_failed) ''Location'' = None"
    by (simp add: prefix_failed_def plain_text_headers hget_def lower_names)
  ultimately show ?thesis
    using assms
    by (auto simp: prefix_respond_redirect prefix_respond_thrown redirect_location_Some hget_hset)
qed

text \<open>
  Claim C6, as amended. The upstream answers a request of the generic path and a request
  of the prefix path with a redirect to a host outside the allow-list, in a response that
  \<^verbatim>\<open>new Response\<close> accepts. The handler returns the same plain-text 403 to both: the
  message of line 174 and the message of line 465 are the same text, with the host of
  the redirect in it.
\<close>

theorem redirect_forbidden_same_message:
  assumes "req_method request \<noteq> ''OPTIONS''"
    and "startsWith (pathname (req_url request)) ''/proxy/''"
    and "generic_target_string pf (pathname (req_url request)) = Inr s"
    and "parseURL pf s = Inr t" and "host t \<in> ALLOWED_DOMAINS"
    and "fetch pf (build_proxy_request pf request ctx (inherit_query (req_url request) s t))
           = Inr response"
    and "300 \<le> status response" and "status response < 400"
    and "hget (rs_headers response) ''location'' = Some loc"
    and "resolveURL pf loc (inherit_query (req_url request) s t) = Inr u"
    and "host u \<notin> ALLOWED_DOMAINS"
    and "\<not> (status response = 304 \<and> body response \<noteq> None)"
    and "req_method request' \<noteq> ''OPTIONS''"
    and "\<not> startsWith (pathname (req_url request')) ''/proxy/''"
    and "route_of PROXY_CONFIG (pathname (req_url request')) = Some (b, p)"
    and "parseURL pf (strip_trailing_slash b @ drop (length p) (pathname (req_url request')))
           = Inr t'"
    and "host t' \<in> ALLOWED_DOMAINS"
    and "fetch pf (build_proxy_request pf request' ctx' (t'\<lparr>search := search (req_url request')\<rparr>))
           = Inr response'"
    and "300 \<le> status response'" and "status response' < 400"
    and "hget (rs_headers response') ''location'' = Some loc'"
    and "resolveURL pf loc' (t'\<lparr>search := search (req_url request')\<rparr>) = Inr u'"
    and "host u' \<notin> ALLOWED_DOMAINS"
    and "\<not> (status response' = 304
             \<and> (needsRewrite (content_type response') \<or> body response' \<noteq> None))"
    and "host u' = host u"
  shows "snd (handler pf request ctx) = snd (handler pf request' ctx')
       \<and> snd (handler pf request ctx) =
           Response (plain_text 403
             ([CHR 0xE9, CHR 0x87, CHR 0x8D, CHR 0xE5, CHR 0xAE, CHR 0x9A, CHR 0xE5, CHR 0x90,
               CHR 0x91, CHR 0xE7, CHR 0x9B, CHR 0xAE, CHR 0xE6, CHR 0xA0, CHR 0x87, CHR 0xE5,
               CHR 0x9F, CHR 0x9F, CHR 0xE5, CHR 0x90, CHR 0x8D, CHR 0x20] @ host u @
              [CHR 0x20, CHR 0xE4, CHR 0xB8, CHR 0x8D, CHR 0xE5, CHR 0x9C, CHR 0xA8, CHR 0xE5,
               CHR 0x85, CHR 0x81, CHR 0xE8, CHR 0xAE, CHR 0xB8, CHR 0xE5, CHR 0x88, CHR 0x97,
               CHR 0xE8, CHR 0xA1, CHR 0xA8, CHR 0xE5, CHR 0x86, CHR 0x85]))"
proof -
  have g: "snd (handler pf request ctx) = Response (generic_redirect_forbidden (host u))"
    using generic_handled[OF assms(1-6)]
      generic_respond_redirect[OF redirect_location_Some[OF assms(7-9)] assms(10) assms(12)]
      assms(11)
    by simp
  have q: "snd (handler pf request' ctx') = Response (prefix_redirect_forbidden (host u'))"
    using prefix_handled[OF assms(13-18)]
      prefix_respond_redirect[OF redirect_location_Some[OF assms(19-21)] assms(22) assms(24)]
      assms(23)
    by simp
  from g q assms(25) show ?thesis
    by (simp add: generic_redirect_forbidden_def prefix_redirect_forbidden_def)
qed









lemma generic_fetch_built:
  "rq \<in> set (fst (generic_proxy pf request ctx)) \<Longrightarrow> \<exists>u. rq = build_proxy_request pf request ctx u"
  by (auto simp: generic_proxy_def generic_try_def Let_def split: sum.splits prod.splits if_splits)

lemma prefix_fetch_built:
  "rq \<in> set (fst (prefix_proxy pf request ctx b p)) \<Longrightarrow> \<exists>u. rq = build_proxy_request pf request ctx u"
  by (auto simp: prefix_proxy_def prefix_try_def Let_def split: sum.splits prod.splits if_splits)

lemma fetch_built:
  "rq \<in> set (fst (handler pf request ctx)) \<Longrightarrow> \<exists>u. rq = build_proxy_request pf request ctx u"
  using handler_cases[of pf request ctx]
  by (auto dest: generic_fetch_built prefix_fetch_built)


section \<open>Worked examples\<close>

lemmas ex_simps = simple_platform_def simple_parseURL_def parse_after_scheme_def
  simple_resolveURL_def startsWith_def Let_def get_request_def redirect_to_def
  ALLOWED_DOMAINS_def origin_def https_url_def strip_trailing_slash_def

lemma route_steam_app:
  "route_of PROXY_CONFIG ''/steam/app'' = Some (''https://store.steampowered.com'', ''/steam'')"
  by code_simp

lemma route_anything: "route_of PROXY_CONFIG ''/anything'' = None"
  by code_simp

lemma route_mediafire:
  "route_of PROXY_CONFIG ''/mediafire/x'' = Some (''https://mediafire.com'', ''/mediafire'')"
  by code_simp

lemma target_plain:
  "generic_target_string (simple_platform f) ''/proxy/store.steampowered.com/app/10''
     = Inr ''https://store.steampowered.com/app/10''"
  by (simp add: generic_target_string_def ex_simps)

lemma target_encoded:
  "generic_target_string (simple_platform f)
     ''/proxy/https%3A%2F%2Fstore.steampowered.com%2Fa%3Fb%3D1''
     = Inr ''https://store.steampowered.com/a?b=1''"
  unfolding simple_platform_def by code_simp

lemma target_evil:
  "generic_target_string (simple_platform f) ''/proxy/evil.example/x'' = Inr ''https://evil.example/x''"
  by (simp add: generic_target_string_def ex_simps)



lemma includes_q:
  "\<not> str_includes ''https://store.steampowered.com/app/10'' ''?''"
  "str_includes ''https://store.steampowered.com/a?b=1'' ''?''"
  by (simp_all add: str_includes_def sublist_code)


lemma parse_facts:
  "simple_parseURL ''https://store.steampowered.com/app/10''
     = Inr (https_url ''store.steampowered.com'' ''/app/10'' [] [])"
  "simple_parseURL ''https://store.steampowered.com/a?b=1''
     = Inr (https_url ''store.steampowered.com'' ''/a'' ''?b=1'' [])"
  "simple_parseURL ''https://store.steampowered.com/app''
     = Inr (https_url ''store.steampowered.com'' ''/app'' [] [])"
  "simple_parseURL ''https://evil.example/x'' = Inr (https_url ''evil.example'' ''/x'' [] [])"
  "simple_parseURL ''https://mediafire.com/x'' = Inr (https_url ''mediafire.com'' ''/x'' [] [])"
  "simple_parseURL ''https://'' = Inl ''TypeError: Invalid URL''"
  "simple_parseURL ''not a url'' = Inl ''TypeError: Invalid URL''"
  by (simp_all add: ex_simps)

lemma resolve_facts:
  "simple_resolveURL ''https://evil.example/x'' (https_url h p q f)
     = Inr (https_url ''evil.example'' ''/x'' [] [])"
  "simple_resolveURL ''https://api.steamcmd.net/v1/info?x=2#frag'' (https_url h p q f)
     = Inr (https_url ''api.steamcmd.net'' ''/v1/info'' ''?x=2'' ''#frag'')"
  "simple_resolveURL ''/login'' (https_url ''store.steampowered.com'' p q f)
     = Inr (https_url ''store.steampowered.com'' ''/login'' [] [])"
  by (simp_all add: ex_simps)

lemma allowed_facts:
  "''store.steampowered.com'' \<in> ALLOWED_DOMAINS" "''api.steamcmd.net'' \<in> ALLOWED_DOMAINS"
  "''evil.example'' \<notin> ALLOWED_DOMAINS" "''mediafire.com'' \<notin> ALLOWED_DOMAINS"
  by (simp_all add: ALLOWED_DOMAINS_def)

lemma https_url_sel [simp]:
  "protocol (https_url h p q f) = ''https:''" "host (https_url h p q f) = h"
  "pathname (https_url h p q f) = p" "search (https_url h p q f) = q"
  "hash (https_url h p q f) = f" "username (https_url h p q f) = []"
  "password (https_url h p q f) = []"
  "(https_url h p q f)\<lparr>search := q'\<rparr> = https_url h p q' f"
  by (simp_all add: https_url_def)

lemma get_request_sel [simp]:
  "req_method (get_request p q) = ''GET''"
  "req_url (get_request p q) = https_url ''proxy.example'' p q []"
  "req_headers (get_request p q) = []"
  by (simp_all add: get_request_def)

lemma simple_platform_sel [simp]:
  "parseURL (simple_platform f) = simple_parseURL"
  "resolveURL (simple_platform f) = simple_resolveURL"
  "decodeURIComponent (simple_platform f) = pct_decode"
  "encodeURIComponent (simple_platform f) = pct_encode"
  "fetch (simple_platform f) = f"
  "decodeText (simple_platform f) = utf8_text"
  "nullBodyError (simple_platform f) = ''TypeError: Response with null body status cannot have body''"
  by (simp_all add: simple_platform_def)

lemma starts_proxy:
  "startsWith ''/proxy/store.steampowered.com/app/10'' ''/proxy/''"
  "startsWith ''/proxy/https%3A%2F%2Fstore.steampowered.com%2Fa%3Fb%3D1'' ''/proxy/''"
  "startsWith ''/proxy/evil.example/x'' ''/proxy/''"
  "startsWith ''/proxy/'' ''/proxy/''"
  "startsWith ''/proxy/https%3A%2F%2Fstore.steampowered.com%2F%ZZ'' ''/proxy/''"
  "\<not> startsWith ''/steam/app'' ''/proxy/''"
  "\<not> startsWith ''/mediafire/x'' ''/proxy/''"
  by (simp_all add: startsWith_def)

text \<open>An \<^verbatim>\<open>OPTIONS\<close> request for a path that no route matches.\<close>

theorem options_preflight_witness:
  "req_method ((get_request ''/anything'' [])\<lparr>req_method := ''OPTIONS''\<rparr>) = ''OPTIONS''
   \<and> handler login_upstream ((get_request ''/anything'' [])\<lparr>req_method := ''OPTIONS''\<rparr>) edge =
       ([], Response
          \<lparr>status = 204, statusText = [],
           rs_headers =
             [(''access-control-allow-origin'', ''*''),
              (''access-control-allow-methods'', ''GET, POST, PUT, DELETE, PATCH, OPTIONS''),
              (''access-control-allow-headers'',
               ''Content-Type, Authorization, X-Requested-With, Accept, Origin, Range''),
              (''access-control-max-age'', ''86400''),
              (''cache-control'', ''public, max-age=86400'')],
           body = None\<rparr>)"
proof -
  have h: "req_method ((get_request ''/anything'' [])\<lparr>req_method := ''OPTIONS''\<rparr>) = ''OPTIONS''"
    by simp
  from options_preflight[OF h] h show ?thesis by blast
qed

text \<open>
  The generic path with a query and a plain target, without a query, and with a target
  that brings its own query; the prefix path with a query.
\<close>

theorem query_string_asymmetry_witness:
  "generic_target_string login_upstream ''/proxy/store.steampowered.com/app/10''
     = Inr ''https://store.steampowered.com/app/10''
   \<and> parseURL login_upstream ''https://store.steampowered.com/app/10''
     = Inr (https_url ''store.steampowered.com'' ''/app/10'' [] [])
   \<and> map pr_url (fst (handler login_upstream
         (get_request ''/proxy/store.steampowered.com/app/10'' ''?l=en'') edge))
     = [https_url ''store.steampowered.com'' ''/app/10'' ''?l=en'' []]
   \<and> map pr_url (fst (handler login_upstream
         (get_request ''/proxy/store.steampowered.com/app/10'' []) edge))
     = [https_url ''store.steampowered.com'' ''/app/10'' [] []]
   \<and> generic_target_string login_upstream
         ''/proxy/https%3A%2F%2Fstore.steampowered.com%2Fa%3Fb%3D1''
     = Inr ''https://store.steampowered.com/a?b=1''
   \<and> parseURL login_upstream ''https://store.steampowered.com/a?b=1''
     = Inr (https_url ''store.steampowered.com'' ''/a'' ''?b=1'' [])
   \<and> map pr_url (fst (handler login_upstream
         (get_request ''/proxy/https%3A%2F%2Fstore.steampowered.com%2Fa%3Fb%3D1'' ''?l=en'') edge))
     = [https_url ''store.steampowered.com'' ''/a'' ''?b=1'' []]
   \<and> route_of PROXY_CONFIG ''/steam/app'' = Some (''https://store.steampowered.com'', ''/steam'')
   \<and> parseURL login_upstream ''https://store.steampowered.com/app''
     = Inr (https_url ''store.steampowered.com'' ''/app'' [] [])
   \<and> map pr_url (fst (handler login_upstream (get_request ''/steam/app'' ''?l=en'') edge))
     = [https_url ''store.steampowered.com'' ''/app'' ''?l=en'' []]"
proof -
  let ?P = login_upstream
  have g1: "map pr_url (fst (handler ?P (get_request ''/proxy/store.steampowered.com/app/10'' q) edge))
      = [if q \<noteq> [] then https_url ''store.steampowered.com'' ''/app/10'' q []
         else https_url ''store.steampowered.com'' ''/app/10'' [] []]" for q
    using query_string_asymmetry[of "get_request ''/proxy/store.steampowered.com/app/10'' q" ?P
        "''https://store.steampowered.com/app/10''"
        "https_url ''store.steampowered.com'' ''/app/10'' [] []" edge]
    by (simp add: login_upstream_def starts_proxy target_plain parse_facts allowed_facts includes_q)
  have g2: "map pr_url (fst (handler ?P
         (get_request ''/proxy/https%3A%2F%2Fstore.steampowered.com%2Fa%3Fb%3D1'' ''?l=en'') edge))
      = [https_url ''store.steampowered.com'' ''/a'' ''?b=1'' []]"
    using query_string_asymmetry[of
        "get_request ''/proxy/https%3A%2F%2Fstore.steampowered.com%2Fa%3Fb%3D1'' ''?l=en''" ?P
        "''https://store.steampowered.com/a?b=1''"
        "https_url ''store.steampowered.com'' ''/a'' ''?b=1'' []" edge]
    by (simp add: login_upstream_def starts_proxy target_encoded parse_facts allowed_facts includes_q)
  have p: "map pr_url (fst (handler ?P (get_request ''/steam/app'' ''?l=en'') edge))
      = [https_url ''store.steampowered.com'' ''/app'' ''?l=en'' []]"
    using query_string_asymmetry[of "get_request ''/steam/app'' ''?l=en''" ?P _ _ edge
        "''https://store.steampowered.com''" "''/steam''"
        "https_url ''store.steampowered.com'' ''/app'' [] []"]
    by (simp add: login_upstream_def starts_proxy route_steam_app parse_facts allowed_facts
          strip_trailing_slash_def)
  from g1[of "''?l=en''"] g1[of "[]"] g2 p show ?thesis
    by (simp add: login_upstream_def target_plain target_encoded parse_facts route_steam_app)
qed


lemma redirect_response_sel [simp]:
  "status (redirect_response loc) = 302" "statusText (redirect_response loc) = ''Found''"
  "rs_headers (redirect_response loc) = [(''location'', loc)]" "body (redirect_response loc) = None"
  by (simp_all add: redirect_response_def)

lemma hget_location_single [simp]: "hget [(''location'', loc)] ''location'' = Some loc"
  by (simp add: hget_def lower_names)

lemma image_response_sel [simp]:
  "status image_response = 200" "statusText image_response = ''OK''"
  "body image_response = Some ''PNG''"
  by (simp_all add: image_response_def)

lemma encoded_cross:
  "pct_encode (href (https_url ''api.steamcmd.net'' ''/v1/info'' ''?x=2'' ''#frag''))
     = ''https%3A%2F%2Fapi.steamcmd.net%2Fv1%2Finfo%3Fx%3D2%23frag''"
  by code_simp

lemma normalized_redirect:
  "normalize_headers [(''location'', loc)] =
     [(''location'', loc), (''access-control-allow-origin'', ''*''),
      (''access-control-allow-methods'', ''GET, POST, PUT, DELETE, PATCH, OPTIONS''),
      (''access-control-allow-headers'',
       ''Content-Type, Authorization, X-Requested-With, Accept, Origin, Range'')]"
  by (simp add: normalize_headers_def hset_def hdelete_def lower_names)

lemma prefix_headers_redirect:
  "prefix_headers (redirect_response loc) =
     [(''location'', loc), (''access-control-allow-origin'', ''*''),
      (''access-control-allow-methods'', ''GET, POST, PUT, DELETE, PATCH, OPTIONS''),
      (''access-control-allow-headers'',
       ''Content-Type, Authorization, X-Requested-With, Accept, Origin, Range''),
      (''cache-control'', ''public, max-age=86400'')]"
  by (simp add: prefix_headers_def content_type_def hget_def lower_names normalized_redirect
        cache_headers_def is_type_def HTML_CONTENT_TYPES_def str_includes_def sublist_code hset_def)

lemma redirect_not_rewritten [simp]: "\<not> needsRewrite (content_type (redirect_response loc))"
  by (simp add: needsRewrite_def content_type_def hget_def lower_names is_type_def
        HTML_CONTENT_TYPES_def CSS_CONTENT_TYPES_def JS_CONTENT_TYPES_def str_includes_def
        sublist_code)

lemma prefix_body_redirect: "prefix_body pf url p t (redirect_response loc) = None"
  by (simp add: prefix_body_None)

lemma image_headers:
  "normalize_headers (rs_headers image_response) =
     [(''content-type'', ''image/png''), (''location'', ''/elsewhere''),
      (''access-control-allow-origin'', ''*''),
      (''access-control-allow-methods'', ''GET, POST, PUT, DELETE, PATCH, OPTIONS''),
      (''access-control-allow-headers'',
       ''Content-Type, Authorization, X-Requested-With, Accept, Origin, Range'')]"
  "hget (rs_headers image_response) ''location'' = Some ''/elsewhere''"
  "content_type image_response = ''image/png''"
  by (simp_all add: image_response_def normalize_headers_def hset_def hdelete_def hget_def
        content_type_def lower_names)

lemma image_not_rewritten:
  "\<not> is_type HTML_CONTENT_TYPES ''image/png''" "\<not> is_type CSS_CONTENT_TYPES ''image/png''"
  "\<not> is_type JS_CONTENT_TYPES ''image/png''" "\<not> needsRewrite ''image/png''"
  by (simp_all add: is_type_def HTML_CONTENT_TYPES_def CSS_CONTENT_TYPES_def
        JS_CONTENT_TYPES_def str_includes_def sublist_code needsRewrite_def)

lemma not_modified_sel [simp]:
  "status (not_modified_response loc) = 304"
  "statusText (not_modified_response loc) = ''Not Modified''"
  "rs_headers (not_modified_response loc) = [(''content-type'', ''text/html''), (''location'', loc)]"
  "body (not_modified_response loc) = None"
  by (simp_all add: not_modified_response_def)

lemma not_modified_facts:
  "hget (rs_headers (not_modified_response loc)) ''location'' = Some loc"
  "hget [(''content-type'', ''text/html''), (''location'', loc)] ''location'' = Some loc"
  "content_type (not_modified_response loc) = ''text/html''"
  "needsRewrite ''text/html''"
  "normalize_headers [(''content-type'', ''text/html''), (''location'', loc)] =
     [(''content-type'', ''text/html''), (''location'', loc),
      (''access-control-allow-origin'', ''*''),
      (''access-control-allow-methods'', ''GET, POST, PUT, DELETE, PATCH, OPTIONS''),
      (''access-control-allow-headers'',
       ''Content-Type, Authorization, X-Requested-With, Accept, Origin, Range'')]"
  by (simp_all add: hget_def content_type_def lower_names needsRewrite_def is_type_def
        HTML_CONTENT_TYPES_def str_includes_def sublist_code normalize_headers_def hset_def
        hdelete_def)

lemma encoded_login:
  "pct_encode (href (https_url ''store.steampowered.com'' ''/login'' [] []))
     = ''https%3A%2F%2Fstore.steampowered.com%2Flogin''"
  by code_simp

lemma prefix_image:
  "prefix_headers image_response =
     [(''content-type'', ''image/png''), (''location'', ''/elsewhere''),
      (''access-control-allow-origin'', ''*''),
      (''access-control-allow-methods'', ''GET, POST, PUT, DELETE, PATCH, OPTIONS''),
      (''access-control-allow-headers'',
       ''Content-Type, Authorization, X-Requested-With, Accept, Origin, Range''),
      (''cache-control'', ''public, max-age=86400'')]"
  "prefix_body pf url p t image_response = Some ''PNG''"
  by (simp_all add: prefix_headers_def prefix_body_def image_headers image_not_rewritten
        cache_headers_def hset_def lower_names)

text \<open>
  On each path: a redirect to a host outside the list, a redirect to a host of the list,
  a 200 that carries a \<^verbatim>\<open>Location\<close>, and a 304 with the content type \<^verbatim>\<open>text/html\<close>
  and the \<^verbatim>\<open>Location\<close> \<^verbatim>\<open>/login\<close>: the prefix path answers it with a 502, the generic
  path with the rewritten \<^verbatim>\<open>Location\<close>.
\<close>

theorem redirect_processing_witness:
  "snd (handler evil_upstream (get_request ''/proxy/store.steampowered.com/app/10'' []) edge)
     = Response (generic_redirect_forbidden ''evil.example'')
   \<and> snd (handler cross_upstream (get_request ''/proxy/store.steampowered.com/app/10'' []) edge)
     = Response \<lparr>status = 302, statusText = ''Found'',
         rs_headers =
           [(''location'',
             ''https://proxy.example/proxy/https%3A%2F%2Fapi.steamcmd.net%2Fv1%2Finfo%3Fx%3D2%23frag''),
            (''access-control-allow-origin'', ''*''),
            (''access-control-allow-methods'', ''GET, POST, PUT, DELETE, PATCH, OPTIONS''),
            (''access-control-allow-headers'',
             ''Content-Type, Authorization, X-Requested-With, Accept, Origin, Range'')],
         body = None\<rparr>
   \<and> snd (handler image_upstream (get_request ''/proxy/store.steampowered.com/app/10'' []) edge)
     = Response \<lparr>status = 200, statusText = ''OK'',
         rs_headers =
           [(''content-type'', ''image/png''), (''location'', ''/elsewhere''),
            (''access-control-allow-origin'', ''*''),
            (''access-control-allow-methods'', ''GET, POST, PUT, DELETE, PATCH, OPTIONS''),
            (''access-control-allow-headers'',
             ''Content-Type, Authorization, X-Requested-With, Accept, Origin, Range'')],
         body = Some ''PNG''\<rparr>
   \<and> snd (handler evil_upstream (get_request ''/steam/app'' []) edge)
     = Response (prefix_redirect_forbidden ''evil.example'')
   \<and> snd (handler login_upstream (get_request ''/steam/app'' []) edge)
     = Response \<lparr>status = 302, statusText = ''Found'',
         rs_headers =
           [(''location'', ''https://proxy.example/steam/login''),
            (''access-control-allow-origin'', ''*''),
            (''access-control-allow-methods'', ''GET, POST, PUT, DELETE, PATCH, OPTIONS''),
            (''access-control-allow-headers'',
             ''Content-Type, Authorization, X-Requested-With, Accept, Origin, Range''),
            (''cache-control'', ''public, max-age=86400'')],
         body = None\<rparr>
   \<and> snd (handler image_upstream (get_request ''/steam/app'' []) edge)
     = Response \<lparr>status = 200, statusText = ''OK'',
         rs_headers =
           [(''content-type'', ''image/png''), (''location'', ''/elsewhere''),
            (''access-control-allow-origin'', ''*''),
            (''access-control-allow-methods'', ''GET, POST, PUT, DELETE, PATCH, OPTIONS''),
            (''access-control-allow-headers'',
             ''Content-Type, Authorization, X-Requested-With, Accept, Origin, Range''),
            (''cache-control'', ''public, max-age=86400'')],
         body = Some ''PNG''\<rparr>
   \<and> snd (handler (not_modified_upstream ''/login'') (get_request ''/steam/app'' []) edge)
     = Response prefix_failed
   \<and> status prefix_failed = 502
   \<and> hget (rs_headers prefix_failed) ''Location'' = None
   \<and> snd (handler (not_modified_upstream ''/login'')
             (get_request ''/proxy/store.steampowered.com/app/10'' []) edge)
     = Response \<lparr>status = 304, statusText = ''Not Modified'',
         rs_headers =
           [(''content-type'', ''text/html''),
            (''location'',
             ''https://proxy.example/proxy/https%3A%2F%2Fstore.steampowered.com%2Flogin''),
            (''access-control-allow-origin'', ''*''),
            (''access-control-allow-methods'', ''GET, POST, PUT, DELETE, PATCH, OPTIONS''),
            (''access-control-allow-headers'',
             ''Content-Type, Authorization, X-Requested-With, Accept, Origin, Range'')],
         body = None\<rparr>"
proof -
  let ?G = "get_request ''/proxy/store.steampowered.com/app/10'' []"
  let ?Q = "get_request ''/steam/app'' []"
  let ?s = "''https://store.steampowered.com/app/10''"
  let ?t = "https_url ''store.steampowered.com'' ''/app/10'' [] []"
  let ?t' = "https_url ''store.steampowered.com'' ''/app'' [] []"
  let ?evil = "''https://evil.example/x''"
  let ?cross = "''https://api.steamcmd.net/v1/info?x=2#frag''"
  let ?N = "not_modified_upstream ''/login''"
  note facts = starts_proxy target_plain parse_facts resolve_facts allowed_facts includes_q
    route_steam_app inherit_query_def redirect_to_def strip_trailing_slash_def
    null_body_status_def image_headers image_not_rewritten not_modified_facts
  have g1: "snd (handler evil_upstream ?G edge) = Response (generic_redirect_forbidden ''evil.example'')"
    using redirect_processing[of ?G evil_upstream ?s ?t edge "redirect_response ?evil" ?evil
        "https_url ''evil.example'' ''/x'' [] []"]
    by (simp add: evil_upstream_def facts)
  have g2: "snd (handler cross_upstream ?G edge)
     = Response \<lparr>status = 302, statusText = ''Found'',
         rs_headers = hset ''Location''
           (''https://proxy.example/proxy/https%3A%2F%2Fapi.steamcmd.net%2Fv1%2Finfo%3Fx%3D2%23frag'')
           (normalize_headers [(''location'', ?cross)]),
         body = None\<rparr>"
    using redirect_processing[of ?G cross_upstream ?s ?t edge "redirect_response ?cross" ?cross
        "https_url ''api.steamcmd.net'' ''/v1/info'' ''?x=2'' ''#frag''"]
    by (simp add: cross_upstream_def facts encoded_cross origin_def)
  have g3: "snd (handler image_upstream ?G edge)
     = Response \<lparr>status = 200, statusText = ''OK'',
         rs_headers = normalize_headers (rs_headers image_response), body = Some ''PNG''\<rparr>"
    using redirect_processing[of ?G image_upstream ?s ?t edge image_response]
    by (simp add: image_upstream_def facts)
  have g4: "snd (handler ?N ?G edge)
     = Response \<lparr>status = 304, statusText = ''Not Modified'',
         rs_headers = hset ''Location''
           (''https://proxy.example/proxy/https%3A%2F%2Fstore.steampowered.com%2Flogin'')
           (normalize_headers [(''content-type'', ''text/html''), (''location'', ''/login'')]),
         body = None\<rparr>"
    using redirect_processing[of ?G ?N ?s ?t edge "not_modified_response ''/login''" "''/login''"
        "https_url ''store.steampowered.com'' ''/login'' [] []"]
    by (simp add: not_modified_upstream_def facts encoded_login origin_def)
  have p1: "snd (handler evil_upstream ?Q edge) = Response (prefix_redirect_forbidden ''evil.example'')"
    using redirect_processing[of ?Q evil_upstream _ _ edge _ _ _
        "''https://store.steampowered.com''" "''/steam''" ?t' "redirect_response ?evil" ?evil
        "https_url ''evil.example'' ''/x'' [] []"]
    by (simp add: evil_upstream_def facts)
  have p2: "snd (handler login_upstream ?Q edge)
     = Response \<lparr>status = 302, statusText = ''Found'',
         rs_headers = hset ''Location'' ''https://proxy.example/steam/login''
           (prefix_headers (redirect_response ''/login'')),
         body = prefix_body login_upstream (https_url ''proxy.example'' ''/steam/app'' [] [])
                  ''/steam'' ?t' (redirect_response ''/login'')\<rparr>"
    using redirect_processing[of ?Q login_upstream _ _ edge _ _ _
        "''https://store.steampowered.com''" "''/steam''" ?t' "redirect_response ''/login''" "''/login''"
        "https_url ''store.steampowered.com'' ''/login'' [] []"]
    by (simp add: login_upstream_def facts origin_def)
  have p3: "snd (handler image_upstream ?Q edge)
     = Response \<lparr>status = 200, statusText = ''OK'',
         rs_headers = prefix_headers image_response,
         body = prefix_body image_upstream (https_url ''proxy.example'' ''/steam/app'' [] [])
                  ''/steam'' ?t' image_response\<rparr>"
    using redirect_processing[of ?Q image_upstream _ _ edge _ _ _
        "''https://store.steampowered.com''" "''/steam''" ?t' image_response]
    by (simp add: image_upstream_def facts)
  have p4: "snd (handler ?N ?Q edge) = Response prefix_failed"
    using redirect_processing[of ?Q ?N _ _ edge _ _ _
        "''https://store.steampowered.com''" "''/steam''" ?t' "not_modified_response ''/login''"
        "''/login''" "https_url ''store.steampowered.com'' ''/login'' [] []"]
    by (simp add: not_modified_upstream_def facts)
  have f: "status prefix_failed = 502" "hget (rs_headers prefix_failed) ''Location'' = None"
    using redirect_processing[of ?Q ?N] by simp_all
  from g1 g2 g3 g4 p1 p2 p3 p4 f show ?thesis
    by (simp add: normalized_redirect image_headers prefix_headers_redirect prefix_body_redirect
          prefix_image not_modified_facts hset_def lower_names)
qed

text \<open>
  The route \<^verbatim>\<open>/steam\<close> goes to \<^verbatim>\<open>store.steampowered.com\<close>; the upstream redirects to
  \<^verbatim>\<open>https://api.steamcmd.net/v1/info?x=2#frag\<close>, once with a 302 without a content
  type, once with a 304 that has the content type \<^verbatim>\<open>text/html\<close>.
\<close>

theorem prefix_redirect_keeps_prefix_witness:
  "req_method (get_request ''/steam/app'' []) \<noteq> ''OPTIONS''
   \<and> \<not> startsWith (pathname (req_url (get_request ''/steam/app'' []))) ''/proxy/''
   \<and> route_of PROXY_CONFIG (pathname (req_url (get_request ''/steam/app'' [])))
        = Some (''https://store.steampowered.com'', ''/steam'')
   \<and> parseURL cross_upstream
        (strip_trailing_slash ''https://store.steampowered.com''
         @ drop (length ''/steam'') (pathname (req_url (get_request ''/steam/app'' []))))
        = Inr (https_url ''store.steampowered.com'' ''/app'' [] [])
   \<and> host (https_url ''store.steampowered.com'' ''/app'' [] []) \<in> ALLOWED_DOMAINS
   \<and> resolveURL cross_upstream ''https://api.steamcmd.net/v1/info?x=2#frag''
        (https_url ''store.steampowered.com'' ''/app'' [] [])
        = Inr (https_url ''api.steamcmd.net'' ''/v1/info'' ''?x=2'' ''#frag'')
   \<and> host (https_url ''api.steamcmd.net'' ''/v1/info'' ''?x=2'' ''#frag'') \<in> ALLOWED_DOMAINS
   \<and> (\<exists>r. snd (handler cross_upstream (get_request ''/steam/app'' []) edge) = Response r
          \<and> status r = 302
          \<and> hget (rs_headers r) ''Location'' = Some ''https://proxy.example/steam/v1/info?x=2'')
   \<and> snd (handler (not_modified_upstream ''https://api.steamcmd.net/v1/info?x=2#frag'')
             (get_request ''/steam/app'' []) edge) = Response prefix_failed
   \<and> status prefix_failed = 502
   \<and> hget (rs_headers prefix_failed) ''Location'' = None"
proof -
  let ?R = "get_request ''/steam/app'' []"
  let ?T = "https_url ''store.steampowered.com'' ''/app'' [] []"
  let ?U = "https_url ''api.steamcmd.net'' ''/v1/info'' ''?x=2'' ''#frag''"
  let ?L = "''https://api.steamcmd.net/v1/info?x=2#frag''"
  let ?resp = "redirect_response ?L"
  let ?N = "not_modified_upstream ?L"
  have h1: "req_method ?R \<noteq> ''OPTIONS''" by (simp add: get_request_def)
  have h2: "\<not> startsWith (pathname (req_url ?R)) ''/proxy/''" by (simp add: ex_simps)
  have h3: "route_of PROXY_CONFIG (pathname (req_url ?R))
              = Some (''https://store.steampowered.com'', ''/steam'')"
    by (simp add: get_request_def https_url_def route_steam_app)
  have h4: "parseURL (simple_platform f)
              (strip_trailing_slash ''https://store.steampowered.com''
               @ drop (length ''/steam'') (pathname (req_url ?R))) = Inr ?T" for f
    by (simp add: ex_simps)
  have h5: "host ?T \<in> ALLOWED_DOMAINS" by (simp add: ex_simps)
  have T: "?T\<lparr>search := search (req_url ?R)\<rparr> = ?T" by (simp add: ex_simps)
  have h6: "fetch cross_upstream (build_proxy_request cross_upstream ?R edge
              (?T\<lparr>search := search (req_url ?R)\<rparr>)) = Inr ?resp"
    by (simp add: cross_upstream_def simple_platform_def redirect_to_def)
  have h7: "300 \<le> status ?resp" "status ?resp < 400"
    by (simp_all add: redirect_response_def)
  have h8: "hget (rs_headers ?resp) ''location'' = Some ?L"
    by (simp add: redirect_response_def hget_def lower_names)
  have h9: "resolveURL (simple_platform f) ?L (?T\<lparr>search := search (req_url ?R)\<rparr>) = Inr ?U" for f
    by (simp add: ex_simps)
  have h10: "host ?U \<in> ALLOWED_DOMAINS" by (simp add: ex_simps)
  from prefix_redirect_keeps_prefix[OF h1 h2 h3 h4[of "redirect_to ?L", folded cross_upstream_def]
      h5 h6 h7 h8 h9[of "redirect_to ?L", folded cross_upstream_def] h10]
  have a: "\<exists>r. snd (handler cross_upstream ?R edge) = Response r \<and> status r = 302
          \<and> hget (rs_headers r) ''Location'' = Some ''https://proxy.example/steam/v1/info?x=2''"
    by (simp add: ex_simps redirect_response_def)
  have n6: "fetch ?N (build_proxy_request ?N ?R edge (?T\<lparr>search := search (req_url ?R)\<rparr>))
      = Inr (not_modified_response ?L)"
    by (simp add: not_modified_upstream_def)
  have n7: "300 \<le> status (not_modified_response ?L)" "status (not_modified_response ?L) < 400"
    by simp_all
  from prefix_redirect_keeps_prefix[OF h1 h2 h3
      h4[of "\<lambda>rq. Inr (not_modified_response ?L)", folded not_modified_upstream_def]
      h5 n6 n7 not_modified_facts(1)
      h9[of "\<lambda>rq. Inr (not_modified_response ?L)", folded not_modified_upstream_def] h10]
  have b: "snd (handler ?N ?R edge) = Response prefix_failed \<and> status prefix_failed = 502
      \<and> hget (rs_headers prefix_failed) ''Location'' = None"
    by (simp add: not_modified_facts)
  from h1 h2 h3 h4[of "redirect_to ?L", folded cross_upstream_def] h5
    h9[of "redirect_to ?L", folded cross_upstream_def] h10 T a b
  show ?thesis by simp
qed

text \<open>The two worked requests, for any upstream.\<close>

lemma ex_prefix_outcome:
  "handler (simple_platform f) (get_request ''/steam/app'' q) edge =
     (let t = https_url ''store.steampowered.com'' ''/app'' q [];
          rq = build_proxy_request (simple_platform f) (get_request ''/steam/app'' q) edge t
      in case f rq of
           Inl e \<Rightarrow> ([rq], Response prefix_failed)
         | Inr response \<Rightarrow>
             ([rq], Response
                (case prefix_respond (simple_platform f)
                        (https_url ''proxy.example'' ''/steam/app'' q []) ''/steam'' t response of
                   Inl e \<Rightarrow> prefix_failed | Inr r \<Rightarrow> r)))"
proof -
  let ?R = "get_request ''/steam/app'' q"
  let ?t = "https_url ''store.steampowered.com'' ''/app'' [] []"
  have h: "handler (simple_platform f) ?R edge
      = prefix_proxy (simple_platform f) ?R edge ''https://store.steampowered.com'' ''/steam''"
    by (rule handler_prefix) (simp_all add: starts_proxy route_steam_app)
  have p: "parseURL (simple_platform f)
       (strip_trailing_slash ''https://store.steampowered.com''
        @ drop (length ''/steam'') (pathname (req_url ?R))) = Inr ?t"
    by (simp add: parse_facts strip_trailing_slash_def)
  have a: "host ?t \<in> ALLOWED_DOMAINS" by (simp add: allowed_facts)
  show ?thesis
    using prefix_proxy_fetch_failed[OF p a, of edge] prefix_proxy_fetched[OF p a, of edge]
    by (auto simp: h Let_def split: sum.splits)
qed

lemma ex_generic_outcome:
  "handler (simple_platform f) (get_request ''/proxy/store.steampowered.com/app/10'' []) edge =
     (let t = https_url ''store.steampowered.com'' ''/app/10'' [] [];
          rq = build_proxy_request (simple_platform f)
                 (get_request ''/proxy/store.steampowered.com/app/10'' []) edge t
      in case f rq of
           Inl e \<Rightarrow> ([rq], Response (generic_failed e))
         | Inr response \<Rightarrow>
             ([rq], Response
                (case generic_respond (simple_platform f)
                        (https_url ''proxy.example'' ''/proxy/store.steampowered.com/app/10'' [] [])
                        t response of
                   Inl e \<Rightarrow> generic_failed e | Inr r \<Rightarrow> r)))"
proof -
  let ?R = "get_request ''/proxy/store.steampowered.com/app/10'' []"
  let ?t = "https_url ''store.steampowered.com'' ''/app/10'' [] []"
  have h: "handler (simple_platform f) ?R edge = generic_proxy (simple_platform f) ?R edge"
    by (rule handler_generic) (simp_all add: starts_proxy)
  have s: "generic_target_string (simple_platform f) (pathname (req_url ?R))
             = Inr ''https://store.steampowered.com/app/10''"
    by (simp add: target_plain)
  have p: "parseURL (simple_platform f) ''https://store.steampowered.com/app/10'' = Inr ?t"
    by (simp add: parse_facts)
  have a: "host ?t \<in> ALLOWED_DOMAINS" by (simp add: allowed_facts)
  have i: "inherit_query (https_url h p [] g) s ?t = ?t" for h p g s
    by (simp add: inherit_query_def)
  show ?thesis
    using generic_proxy_fetch_failed[OF s p a, of edge] generic_proxy_fetched[OF s p a, of edge]
    by (auto simp: h i Let_def split: sum.splits)
qed

lemma ex_generic_evil:
  "snd (handler evil_upstream (get_request ''/proxy/store.steampowered.com/app/10'' []) edge)
     = Response (generic_redirect_forbidden ''evil.example'')"
  by (simp add: evil_upstream_def ex_generic_outcome Let_def redirect_to_def
        generic_respond_redirect[of _ "''https://evil.example/x''" _ _
          "https_url ''evil.example'' ''/x'' [] []"]
        redirect_location_def resolve_facts allowed_facts)

lemma ex_prefix_evil:
  "snd (handler evil_upstream (get_request ''/steam/app'' []) edge)
     = Response (prefix_redirect_forbidden ''evil.example'')"
  by (simp add: evil_upstream_def ex_prefix_outcome Let_def redirect_to_def
        prefix_respond_redirect[of _ "''https://evil.example/x''" _ _
          "https_url ''evil.example'' ''/x'' [] []"]
        redirect_location_def resolve_facts allowed_facts)

lemma ex_prefix_login:
  "handler login_upstream (get_request ''/steam/app'' []) edge =
     ([build_proxy_request login_upstream (get_request ''/steam/app'' []) edge
         (https_url ''store.steampowered.com'' ''/app'' [] [])],
      Response \<lparr>status = 302, statusText = ''Found'',
         rs_headers =
           [(''location'', ''https://proxy.example/steam/login''),
            (''access-control-allow-origin'', ''*''),
            (''access-control-allow-methods'', ''GET, POST, PUT, DELETE, PATCH, OPTIONS''),
            (''access-control-allow-headers'',
             ''Content-Type, Authorization, X-Requested-With, Accept, Origin, Range''),
            (''cache-control'', ''public, max-age=86400'')],
         body = None\<rparr>)"
  by (simp add: login_upstream_def ex_prefix_outcome Let_def redirect_to_def
        prefix_respond_redirect[of _ "''/login''" _ _
          "https_url ''store.steampowered.com'' ''/login'' [] []"]
        redirect_location_def resolve_facts allowed_facts origin_def
        prefix_headers_redirect prefix_body_redirect hset_def lower_names)

text \<open>
  The same upstream answers a request on each path with a redirect to
  \<^verbatim>\<open>https://evil.example/x\<close>: the two responses have the same body.
\<close>

theorem redirect_messages_equal:
  "snd (handler evil_upstream (get_request ''/proxy/store.steampowered.com/app/10'' []) edge)
     = Response (generic_redirect_forbidden ''evil.example'')
   \<and> snd (handler evil_upstream (get_request ''/steam/app'' []) edge)
     = Response (prefix_redirect_forbidden ''evil.example'')
   \<and> body (generic_redirect_forbidden ''evil.example'')
     = body (prefix_redirect_forbidden ''evil.example'')
   \<and> generic_redirect_forbidden ''evil.example'' = prefix_redirect_forbidden ''evil.example''"
  by (simp add: ex_generic_evil ex_prefix_evil generic_redirect_forbidden_def
        prefix_redirect_forbidden_def)

text \<open>
  The handler on that redirect, for a request of each path: the hypotheses of the
  theorem hold and the two outcomes are the same 403.
\<close>

theorem redirect_forbidden_same_message_witness:
  "resolveURL evil_upstream ''https://evil.example/x''
        (https_url ''store.steampowered.com'' ''/app/10'' [] [])
     = Inr (https_url ''evil.example'' ''/x'' [] [])
   \<and> resolveURL evil_upstream ''https://evil.example/x''
        (https_url ''store.steampowered.com'' ''/app'' [] [])
     = Inr (https_url ''evil.example'' ''/x'' [] [])
   \<and> host (https_url ''evil.example'' ''/x'' [] []) \<notin> ALLOWED_DOMAINS
   \<and> snd (handler evil_upstream (get_request ''/proxy/store.steampowered.com/app/10'' []) edge)
     = snd (handler evil_upstream (get_request ''/steam/app'' []) edge)
   \<and> snd (handler evil_upstream (get_request ''/proxy/store.steampowered.com/app/10'' []) edge)
     = Response (plain_text 403
         ([CHR 0xE9, CHR 0x87, CHR 0x8D, CHR 0xE5, CHR 0xAE, CHR 0x9A, CHR 0xE5, CHR 0x90,
           CHR 0x91, CHR 0xE7, CHR 0x9B, CHR 0xAE, CHR 0xE6, CHR 0xA0, CHR 0x87, CHR 0xE5,
           CHR 0x9F, CHR 0x9F, CHR 0xE5, CHR 0x90, CHR 0x8D, CHR 0x20] @ ''evil.example'' @
          [CHR 0x20, CHR 0xE4, CHR 0xB8, CHR 0x8D, CHR 0xE5, CHR 0x9C, CHR 0xA8, CHR 0xE5,
           CHR 0x85, CHR 0x81, CHR 0xE8, CHR 0xAE, CHR 0xB8, CHR 0xE5, CHR 0x88, CHR 0x97,
           CHR 0xE8, CHR 0xA1, CHR 0xA8, CHR 0xE5, CHR 0x86, CHR 0x85]))"
proof -
  let ?G = "get_request ''/proxy/store.steampowered.com/app/10'' []"
  let ?Q = "get_request ''/steam/app'' []"
  let ?s = "''https://store.steampowered.com/app/10''"
  let ?t = "https_url ''store.steampowered.com'' ''/app/10'' [] []"
  let ?t' = "https_url ''store.steampowered.com'' ''/app'' [] []"
  let ?L = "''https://evil.example/x''"
  let ?u = "https_url ''evil.example'' ''/x'' [] []"
  have g1: "req_method ?G \<noteq> ''OPTIONS''" by simp
  have g2: "startsWith (pathname (req_url ?G)) ''/proxy/''" by (simp add: starts_proxy)
  have g3: "generic_target_string evil_upstream (pathname (req_url ?G)) = Inr ?s"
    by (simp add: evil_upstream_def target_plain)
  have g4: "parseURL evil_upstream ?s = Inr ?t" by (simp add: evil_upstream_def parse_facts)
  have g5: "host ?t \<in> ALLOWED_DOMAINS" by (simp add: allowed_facts)
  have g6: "fetch evil_upstream (build_proxy_request evil_upstream ?G edge
              (inherit_query (req_url ?G) ?s ?t)) = Inr (redirect_response ?L)"
    by (simp add: evil_upstream_def redirect_to_def)
  have r7: "300 \<le> status (redirect_response ?L)" "status (redirect_response ?L) < 400"
    "hget (rs_headers (redirect_response ?L)) ''location'' = Some ?L"
    by simp_all
  have g10: "resolveURL evil_upstream ?L (inherit_query (req_url ?G) ?s ?t) = Inr ?u"
    by (simp add: inherit_query_def evil_upstream_def resolve_facts)
  have u: "host ?u \<notin> ALLOWED_DOMAINS" by (simp add: allowed_facts)
  have g12: "\<not> (status (redirect_response ?L) = 304 \<and> body (redirect_response ?L) \<noteq> None)"
    by simp
  have p1: "req_method ?Q \<noteq> ''OPTIONS''" by simp
  have p2: "\<not> startsWith (pathname (req_url ?Q)) ''/proxy/''" by (simp add: starts_proxy)
  have p3: "route_of PROXY_CONFIG (pathname (req_url ?Q))
              = Some (''https://store.steampowered.com'', ''/steam'')"
    by (simp add: route_steam_app)
  have p4: "parseURL evil_upstream
              (strip_trailing_slash ''https://store.steampowered.com''
               @ drop (length ''/steam'') (pathname (req_url ?Q))) = Inr ?t'"
    by (simp add: evil_upstream_def parse_facts strip_trailing_slash_def)
  have p5: "host ?t' \<in> ALLOWED_DOMAINS" by (simp add: allowed_facts)
  have p6: "fetch evil_upstream (build_proxy_request evil_upstream ?Q edge
              (?t'\<lparr>search := search (req_url ?Q)\<rparr>)) = Inr (redirect_response ?L)"
    by (simp add: evil_upstream_def redirect_to_def)
  have p10: "resolveURL evil_upstream ?L (?t'\<lparr>search := search (req_url ?Q)\<rparr>) = Inr ?u"
    by (simp add: evil_upstream_def resolve_facts)
  have p12: "\<not> (status (redirect_response ?L) = 304
      \<and> (needsRewrite (content_type (redirect_response ?L)) \<or> body (redirect_response ?L) \<noteq> None))"
    by simp
  from redirect_forbidden_same_message[OF g1 g2 g3 g4 g5 g6 r7 g10 u g12
      p1 p2 p3 p4 p5 p6 r7 p10 u p12 refl]
  have "snd (handler evil_upstream ?G edge) = snd (handler evil_upstream ?Q edge)
     \<and> snd (handler evil_upstream ?G edge)
       = Response (plain_text 403
         ([CHR 0xE9, CHR 0x87, CHR 0x8D, CHR 0xE5, CHR 0xAE, CHR 0x9A, CHR 0xE5, CHR 0x90,
           CHR 0x91, CHR 0xE7, CHR 0x9B, CHR 0xAE, CHR 0xE6, CHR 0xA0, CHR 0x87, CHR 0xE5,
           CHR 0x9F, CHR 0x9F, CHR 0xE5, CHR 0x90, CHR 0x8D, CHR 0x20] @ ''evil.example'' @
          [CHR 0x20, CHR 0xE4, CHR 0xB8, CHR 0x8D, CHR 0xE5, CHR 0x9C, CHR 0xA8, CHR 0xE5,
           CHR 0x85, CHR 0x81, CHR 0xE8, CHR 0xAE, CHR 0xB8, CHR 0xE5, CHR 0x88, CHR 0x97,
           CHR 0xE8, CHR 0xA1, CHR 0xA8, CHR 0xE5, CHR 0x86, CHR 0x85]))"
    by (unfold https_url_sel) blast
  moreover have "resolveURL evil_upstream ?L ?t = Inr ?u" "resolveURL evil_upstream ?L ?t' = Inr ?u"
    by (simp_all add: evil_upstream_def resolve_facts)
  ultimately show ?thesis using u by blast
qed


text \<open>
  A fetch to an allow-listed host, a generic target and a route target outside the list
  (\<^verbatim>\<open>/mediafire\<close> goes to \<^verbatim>\<open>mediafire.com\<close>, which the list does not have), and a
  redirect that comes back under the proxy origin.
\<close>

theorem only_allowed_hosts_witness:
  "fst (handler login_upstream (get_request ''/steam/app'' []) edge) =
     [build_proxy_request login_upstream (get_request ''/steam/app'' []) edge
        (https_url ''store.steampowered.com'' ''/app'' [] [])]
   \<and> host (pr_url (build_proxy_request login_upstream (get_request ''/steam/app'' []) edge
        (https_url ''store.steampowered.com'' ''/app'' [] []))) \<in> ALLOWED_DOMAINS
   \<and> handler login_upstream (get_request ''/proxy/evil.example/x'' []) edge
       = ([], Response (generic_forbidden ''evil.example''))
   \<and> status (generic_forbidden ''evil.example'') = 403
   \<and> handler login_upstream (get_request ''/mediafire/x'' []) edge
       = ([], Response (prefix_forbidden ''mediafire.com''))
   \<and> status (prefix_forbidden ''mediafire.com'') = 403
   \<and> (\<exists>rq loc u. rq \<in> set (fst (handler login_upstream (get_request ''/steam/app'' []) edge))
          \<and> resolveURL login_upstream loc (pr_url rq) = Inr u \<and> host u \<in> ALLOWED_DOMAINS
          \<and> (''https://proxy.example/steam/login''
                = origin (req_url (get_request ''/steam/app'' [])) @ ''/proxy/''
                  @ encodeURIComponent login_upstream (href u)
              \<or> (\<exists>p' \<in> fst ` set PROXY_CONFIG.
                   ''https://proxy.example/steam/login''
                   = origin (req_url (get_request ''/steam/app'' [])) @ p' @ pathname u @ search u)))"
proof -
  let ?Q = "get_request ''/steam/app'' []"
  let ?rq = "build_proxy_request login_upstream ?Q edge
               (https_url ''store.steampowered.com'' ''/app'' [] [])"
  let ?r = "\<lparr>status = 302, statusText = ''Found'',
         rs_headers =
           [(''location'', ''https://proxy.example/steam/login''),
            (''access-control-allow-origin'', ''*''),
            (''access-control-allow-methods'', ''GET, POST, PUT, DELETE, PATCH, OPTIONS''),
            (''access-control-allow-headers'',
             ''Content-Type, Authorization, X-Requested-With, Accept, Origin, Range''),
            (''cache-control'', ''public, max-age=86400'')],
         body = None\<rparr>"
  have f: "fst (handler login_upstream ?Q edge) = [?rq]" by (simp add: ex_prefix_login)
  have a: "host (pr_url ?rq) \<in> ALLOWED_DOMAINS"
    using only_allowed_hosts[of login_upstream ?Q edge] f by simp
  have b: "handler login_upstream (get_request ''/proxy/evil.example/x'' []) edge
       = ([], Response (generic_forbidden ''evil.example''))
     \<and> status (generic_forbidden ''evil.example'') = 403"
    using only_allowed_hosts[of login_upstream "get_request ''/proxy/evil.example/x'' []" edge
        "''https://evil.example/x''" "https_url ''evil.example'' ''/x'' [] []"]
    by (simp add: login_upstream_def starts_proxy target_evil parse_facts allowed_facts)
  have c: "handler login_upstream (get_request ''/mediafire/x'' []) edge
       = ([], Response (prefix_forbidden ''mediafire.com''))
     \<and> status (prefix_forbidden ''mediafire.com'') = 403"
    using only_allowed_hosts[of login_upstream "get_request ''/mediafire/x'' []" edge _ _
        "''https://mediafire.com''" "''/mediafire''" "https_url ''mediafire.com'' ''/x'' [] []"]
    by (simp add: login_upstream_def starts_proxy route_mediafire parse_facts allowed_facts
          strip_trailing_slash_def)
  have r: "snd (handler login_upstream ?Q edge) = Response ?r" by (simp add: ex_prefix_login)
  have l: "hget (rs_headers ?r) ''Location'' = Some ''https://proxy.example/steam/login''"
    by (simp add: hget_def lower_names)
  have d: "\<exists>rq loc u. rq \<in> set (fst (handler login_upstream ?Q edge))
          \<and> resolveURL login_upstream loc (pr_url rq) = Inr u \<and> host u \<in> ALLOWED_DOMAINS
          \<and> (''https://proxy.example/steam/login''
                = origin (req_url ?Q) @ ''/proxy/'' @ encodeURIComponent login_upstream (href u)
              \<or> (\<exists>p' \<in> fst ` set PROXY_CONFIG.
                   ''https://proxy.example/steam/login''
                   = origin (req_url ?Q) @ p' @ pathname u @ search u))"
    using only_allowed_hosts[of login_upstream ?Q edge] r l by simp
  from f a b c d show ?thesis by blast
qed



lemma bad_referer_sel [simp]:
  "req_method (bad_referer_request p) = ''GET''"
  "req_url (bad_referer_request p) = https_url ''proxy.example'' p [] []"
  "req_headers (bad_referer_request p) = [(''referer'', ''not a url'')]"
  by (simp_all add: bad_referer_request_def)



text \<open>
  Claim C7. The claim gives, for a bare relative attribute value, the proxy origin, the
  matched prefix, the directory of the target path and the value. Line 317 puts one more
  slash between the prefix and the directory, which itself starts with a slash: for the
  target path \<^verbatim>\<open>/dir/page.html\<close> and the value \<^verbatim>\<open>b.html\<close> the passes give
  \<^verbatim>\<open>https://proxy.example/steam//dir/b.html\<close>, not
  \<^verbatim>\<open>https://proxy.example/steam/dir/b.html\<close>. The CSS pass of line 404 builds the same
  kind of URL without that slash.
\<close>

theorem bare_relative_double_slash:
  "path_dir ''/dir/page.html'' = ''/dir/''
   \<and> html_passes ''https://proxy.example'' ''/steam'' ''store.steampowered.com''
        (path_dir ''/dir/page.html'') (''<a href='' @ [dq] @ ''b.html'' @ [dq] @ ''>'')
     = ''<a href='' @ [dq] @ ''https://proxy.example/steam//dir/b.html'' @ [dq] @ ''>''
   \<and> html_passes ''https://proxy.example'' ''/steam'' ''store.steampowered.com''
        (path_dir ''/dir/page.html'') (''<a href='' @ [dq] @ ''b.html'' @ [dq] @ ''>'')
     \<noteq> ''<a href='' @ [dq] @ ''https://proxy.example/steam/dir/b.html'' @ [dq] @ ''>''
   \<and> rewrite_css ''https://proxy.example'' ''/steam'' ''store.steampowered.com''
        (path_dir ''/dir/page.css'') ''a { background: url(b.png) }''
     = ''a { background: url(https://proxy.example/steam/dir/b.png) }''"
  by code_simp

end
